theory Spec2Isabelle
  imports Main
begin

section \<open>JSON values and the Python operations the handlers apply to them\<close>

text \<open>
  A request body is whatever \<^verbatim>\<open>request.get_json()\<close> returns: any JSON value. An object
  is the Python dict, kept as an association list read with \<open>map_of\<close>. A number with a
  fraction is \<open>JFloat m e\<close> (mantissa and exponent); it is zero exactly when \<open>m = 0\<close>.
\<close>

datatype json =
    JNull
  | JBool bool
  | JInt int
  | JFloat int int
  | JStr string
  | JList "json list"
  | JObj "(string \<times> json) list"

text \<open>The exceptions a handler can raise; Flask answers an unhandled one with status 500.\<close>

datatype py_error = ValueError | TypeError | KeyError | AttributeError

text \<open>
  A handler returns the JSON body with the status code, and the collection after the call.
  \<open>Inl err\<close> is an unhandled exception: every handler raises, if at all, before it
  appends, so the collection is then as it was before the call. The clock is an argument
  of the handlers that read it. The handlers of \<^verbatim>\<open>/health\<close>, \<^verbatim>\<open>/\<close> and the statistics
  endpoints write no collection and are left out.
\<close>

type_synonym reply = "json \<times> nat"
type_synonym 's result = "py_error + reply \<times> 's"

text \<open>Python truthiness, as \<^verbatim>\<open>not data\<close> tests it.\<close>

fun truthy :: "json \<Rightarrow> bool" where
  "truthy JNull = False"
| "truthy (JBool b) = b"
| "truthy (JInt n) = (n \<noteq> 0)"
| "truthy (JFloat m e) = (m \<noteq> 0)"
| "truthy (JStr s) = (s \<noteq> [])"
| "truthy (JList xs) = (xs \<noteq> [])"
| "truthy (JObj kv) = (kv \<noteq> [])"

fun has_substring :: "string \<Rightarrow> string \<Rightarrow> bool" where
  "has_substring pat [] = (pat = [])"
| "has_substring pat (c # cs) = (take (length pat) (c # cs) = pat \<or> has_substring pat cs)"

text \<open>
  \<^verbatim>\<open>key in data\<close>: a key of a dict, an element of a list, a substring of a string;
  any other value is not iterable.
\<close>

fun py_in :: "string \<Rightarrow> json \<Rightarrow> py_error + bool" where
  "py_in k (JObj kv) = Inr (map_of kv k \<noteq> None)"
| "py_in k (JList xs) = Inr (JStr k \<in> set xs)"
| "py_in k (JStr s) = Inr (has_substring k s)"
| "py_in k JNull = Inl TypeError"
| "py_in k (JBool b) = Inl TypeError"
| "py_in k (JInt n) = Inl TypeError"
| "py_in k (JFloat m e) = Inl TypeError"

text \<open>\<^verbatim>\<open>data[key]\<close> with a string key: only a dict can be indexed by a string.\<close>

fun py_getitem :: "json \<Rightarrow> string \<Rightarrow> py_error + json" where
  "py_getitem (JObj kv) k = (case map_of kv k of None \<Rightarrow> Inl KeyError | Some v \<Rightarrow> Inr v)"
| "py_getitem JNull k = Inl TypeError"
| "py_getitem (JBool b) k = Inl TypeError"
| "py_getitem (JInt n) k = Inl TypeError"
| "py_getitem (JFloat m e) k = Inl TypeError"
| "py_getitem (JStr s) k = Inl TypeError"
| "py_getitem (JList xs) k = Inl TypeError"

text \<open>\<^verbatim>\<open>data.get(key, default)\<close>: only a dict has the method.\<close>

fun py_get :: "json \<Rightarrow> string \<Rightarrow> json \<Rightarrow> py_error + json" where
  "py_get (JObj kv) k d = Inr (case map_of kv k of None \<Rightarrow> d | Some v \<Rightarrow> v)"
| "py_get JNull k d = Inl AttributeError"
| "py_get (JBool b) k d = Inl AttributeError"
| "py_get (JInt n) k d = Inl AttributeError"
| "py_get (JFloat m e) k d = Inl AttributeError"
| "py_get (JStr s) k d = Inl AttributeError"
| "py_get (JList xs) k d = Inl AttributeError"

text \<open>\<^verbatim>\<open>max(ids)\<close>: raises ValueError on an empty list.\<close>

fun py_max :: "int list \<Rightarrow> py_error + int" where
  "py_max [] = Inl ValueError"
| "py_max (x # xs) = Inr (fold max xs x)"

text \<open>\<^verbatim>\<open>jsonify({'error': msg})\<close>.\<close>

definition error_body :: "string \<Rightarrow> json" where
  "error_body msg = JObj [(''error'', JStr msg)]"

text \<open>\<^verbatim>\<open>{name: rows, 'count': len(rows)}\<close>, the body of the list endpoints.\<close>

definition listing :: "string \<Rightarrow> json list \<Rightarrow> json" where
  "listing name rows = JObj [(name, JList rows), (''count'', JInt (int (length rows)))]"

section \<open>User service\<close>

record user =
  usr_id :: int
  usr_name :: json
  usr_email :: json
  usr_role :: json

definition user_json :: "user \<Rightarrow> json" where
  "user_json u =
     JObj [(''id'', JInt (usr_id u)), (''name'', usr_name u), (''email'', usr_email u),
           (''role'', usr_role u)]"

text \<open>The sample data the global \<^verbatim>\<open>USERS\<close> starts with.\<close>

definition sample_USERS :: "user list" where
  "sample_USERS =
    [\<lparr>usr_id = 1, usr_name = JStr ''John Doe'', usr_email = JStr ''john.doe@company.com'',
      usr_role = JStr ''admin''\<rparr>,
     \<lparr>usr_id = 2, usr_name = JStr ''Jane Smith'', usr_email = JStr ''jane.smith@company.com'',
      usr_role = JStr ''user''\<rparr>,
     \<lparr>usr_id = 3, usr_name = JStr ''Bob Johnson'', usr_email = JStr ''bob.johnson@company.com'',
      usr_role = JStr ''user''\<rparr>,
     \<lparr>usr_id = 4, usr_name = JStr ''Alice Brown'', usr_email = JStr ''alice.brown@company.com'',
      usr_role = JStr ''manager''\<rparr>]"

definition get_users :: "user list \<Rightarrow> user list result" where
  "get_users USERS = Inr ((listing ''users'' (map user_json USERS), 200), USERS)"

definition get_user :: "int \<Rightarrow> user list \<Rightarrow> user list result" where
  "get_user user_id USERS =
     (case find (\<lambda>u. usr_id u = user_id) USERS of
        Some u \<Rightarrow> Inr ((user_json u, 200), USERS)
      | None \<Rightarrow> Inr ((error_body ''User not found'', 404), USERS))"

definition create_user :: "json \<Rightarrow> user list \<Rightarrow> user list result" where
  "create_user data USERS =
     (if \<not> truthy data then Inr ((error_body ''Name is required'', 400), USERS)
      else (case py_in ''name'' data of
        Inl err \<Rightarrow> Inl err
      | Inr has_name \<Rightarrow>
         (if \<not> has_name then Inr ((error_body ''Name is required'', 400), USERS)
          else (case py_max (map usr_id USERS) of
            Inl err \<Rightarrow> Inl err
          | Inr m \<Rightarrow>
             (case py_getitem data ''name'' of
                Inl err \<Rightarrow> Inl err
              | Inr name \<Rightarrow>
                 (case py_get data ''email'' (JStr '''') of
                    Inl err \<Rightarrow> Inl err
                  | Inr email \<Rightarrow>
                     (case py_get data ''role'' (JStr ''user'') of
                        Inl err \<Rightarrow> Inl err
                      | Inr role \<Rightarrow>
                         (let new_user = \<lparr>usr_id = m + 1, usr_name = name,
                                           usr_email = email, usr_role = role\<rparr>
                          in Inr ((user_json new_user, 201), USERS @ [new_user])))))))))"

section \<open>Dates and the ISO-8601 parser of the standard library\<close>

text \<open>
  \<^verbatim>\<open>datetime.fromisoformat\<close> belongs to the Python standard library, not to this
  repository. It is modelled here by the format the library documents for Python 3.7 to
  3.10, the versions whose parser rejects a \<^verbatim>\<open>Z\<close> suffix:
  \<^verbatim>\<open>YYYY-MM-DD[*HH[:MM[:SS[.fff[fff]]]][+HH:MM[:SS[.ffffff]]]]\<close>, where \<^verbatim>\<open>*\<close> is any
  single character, every other field is made of ASCII digits, and the fields must be in
  the ranges the \<^verbatim>\<open>datetime\<close> constructor accepts. Any other string raises ValueError.
\<close>

record date =
  year :: nat
  month :: nat
  day :: nat

record datetime =
  dt_year :: nat
  dt_month :: nat
  dt_day :: nat
  dt_hour :: nat
  dt_minute :: nat
  dt_second :: nat
  dt_microsecond :: nat
  dt_utcoffset :: "int option"

definition digit_of :: "char \<Rightarrow> nat option" where
  "digit_of c =
     (let n = (of_char c :: nat) in if 48 \<le> n \<and> n \<le> 57 then Some (n - 48) else None)"

fun number_of :: "nat \<Rightarrow> string \<Rightarrow> nat option" where
  "number_of acc [] = Some acc"
| "number_of acc (c # cs) =
     (case digit_of c of None \<Rightarrow> None | Some d \<Rightarrow> number_of (10 * acc + d) cs)"

definition parse_digits :: "string \<Rightarrow> nat option" where
  "parse_digits s = (if s = [] then None else number_of 0 s)"

definition parse_isoformat_date :: "string \<Rightarrow> (nat \<times> nat \<times> nat) option" where
  "parse_isoformat_date d =
     (if length d = 10 \<and> d ! 4 = CHR ''-'' \<and> d ! 7 = CHR ''-'' then
        (case parse_digits (take 4 d) of
           None \<Rightarrow> None
         | Some y \<Rightarrow>
            (case parse_digits (take 2 (drop 5 d)) of
               None \<Rightarrow> None
             | Some m \<Rightarrow>
                (case parse_digits (drop 8 d) of
                   None \<Rightarrow> None
                 | Some dd \<Rightarrow> Some (y, m, dd))))
      else None)"

text \<open>\<^verbatim>\<open>HH[:MM[:SS[.fff[fff]]]]\<close>: a string of length 2, 5, 8, 12 or 15.\<close>

definition parse_hh_mm_ss_ff :: "string \<Rightarrow> (nat \<times> nat \<times> nat \<times> nat) option" where
  "parse_hh_mm_ss_ff t =
     (let n = length t in
      if n \<noteq> 2 \<and> n \<noteq> 5 \<and> n \<noteq> 8 \<and> n \<noteq> 12 \<and> n \<noteq> 15 then None
      else
        (case parse_digits (take 2 t) of
           None \<Rightarrow> None
         | Some hh \<Rightarrow>
            (case (if n = 2 then Some 0
                   else if t ! 2 = CHR '':'' then parse_digits (take 2 (drop 3 t))
                   else None) of
               None \<Rightarrow> None
             | Some mm \<Rightarrow>
                (case (if n \<le> 5 then Some 0
                       else if t ! 5 = CHR '':'' then parse_digits (take 2 (drop 6 t))
                       else None) of
                   None \<Rightarrow> None
                 | Some ss \<Rightarrow>
                    (case (if n \<le> 8 then Some 0
                           else if t ! 8 = CHR ''.'' then parse_digits (drop 9 t)
                           else None) of
                       None \<Rightarrow> None
                     | Some ff \<Rightarrow> Some (hh, mm, ss, if n = 12 then ff * 1000 else ff))))))"

text \<open>Where the offset starts: at the first \<^verbatim>\<open>-\<close> if there is one, else at the first \<^verbatim>\<open>+\<close>.\<close>

definition tz_pos :: "string \<Rightarrow> nat option" where
  "tz_pos t =
     (if CHR ''-'' \<in> set t then Some (length (takeWhile (\<lambda>c. c \<noteq> CHR ''-'') t))
      else if CHR ''+'' \<in> set t then Some (length (takeWhile (\<lambda>c. c \<noteq> CHR ''+'') t))
      else None)"

text \<open>
  The time of day with the offset from UTC in microseconds, if one is written. An offset
  must be shorter than 24 hours.
\<close>

definition parse_isoformat_time ::
  "string \<Rightarrow> ((nat \<times> nat \<times> nat \<times> nat) \<times> int option) option" where
  "parse_isoformat_time t =
     (case tz_pos t of
        None \<Rightarrow> (case parse_hh_mm_ss_ff t of None \<Rightarrow> None | Some tc \<Rightarrow> Some (tc, None))
      | Some p \<Rightarrow>
         (case parse_hh_mm_ss_ff (take p t) of
            None \<Rightarrow> None
          | Some tc \<Rightarrow>
             (let tzstr = drop (p + 1) t; n = length tzstr in
              if n \<noteq> 5 \<and> n \<noteq> 8 \<and> n \<noteq> 15 then None
              else
                (case parse_hh_mm_ss_ff tzstr of
                   None \<Rightarrow> None
                 | Some (h, m, s, f) \<Rightarrow>
                    (let td = (int h * 3600 + int m * 60 + int s) * 1000000 + int f in
                     if 86400000000 \<le> td then None
                     else Some (tc, Some (if t ! p = CHR ''-'' then - td else td)))))))"

definition is_leap :: "nat \<Rightarrow> bool" where
  "is_leap y = (y mod 4 = 0 \<and> (y mod 100 \<noteq> 0 \<or> y mod 400 = 0))"

definition days_in_month :: "nat \<Rightarrow> nat \<Rightarrow> nat" where
  "days_in_month y m =
     (if m = 2 then (if is_leap y then 29 else 28)
      else if m = 4 \<or> m = 6 \<or> m = 9 \<or> m = 11 then 30
      else 31)"

text \<open>The \<^verbatim>\<open>datetime\<close> constructor: it raises ValueError on a field out of range.\<close>

definition new_datetime ::
  "nat \<Rightarrow> nat \<Rightarrow> nat \<Rightarrow> nat \<Rightarrow> nat \<Rightarrow> nat \<Rightarrow> nat \<Rightarrow> int option \<Rightarrow> py_error + datetime" where
  "new_datetime y m d hh mm ss ff tz =
     (if 1 \<le> y \<and> y \<le> 9999 \<and> 1 \<le> m \<and> m \<le> 12 \<and> 1 \<le> d \<and> d \<le> days_in_month y m
         \<and> hh \<le> 23 \<and> mm \<le> 59 \<and> ss \<le> 59 \<and> ff \<le> 999999
      then Inr \<lparr>dt_year = y, dt_month = m, dt_day = d, dt_hour = hh, dt_minute = mm,
                dt_second = ss, dt_microsecond = ff, dt_utcoffset = tz\<rparr>
      else Inl ValueError)"

definition fromisoformat :: "string \<Rightarrow> py_error + datetime" where
  "fromisoformat s =
     (case parse_isoformat_date (take 10 s) of
        None \<Rightarrow> Inl ValueError
      | Some (y, m, d) \<Rightarrow>
         (if length s \<le> 10 then new_datetime y m d 0 0 0 0 None
          else
            (case parse_isoformat_time (drop 11 s) of
               None \<Rightarrow> Inl ValueError
             | Some ((hh, mm, ss, ff), tz) \<Rightarrow> new_datetime y m d hh mm ss ff tz)))"

text \<open>
  \<^verbatim>\<open>dt.date()\<close>: the year, month and day as the timestamp writes them. No offset is
  applied, so this is the UTC date only when the offset is zero.
\<close>

definition date_of :: "datetime \<Rightarrow> date" where
  "date_of dt = \<lparr>year = dt_year dt, month = dt_month dt, day = dt_day dt\<rparr>"

text \<open>\<^verbatim>\<open>s.replace(old, new)\<close> for a pattern of one character: every occurrence is replaced.\<close>

definition py_replace :: "char \<Rightarrow> string \<Rightarrow> string \<Rightarrow> string" where
  "py_replace old new s = concat (map (\<lambda>c. if c = old then new else [c]) s)"

text \<open>
  \<^verbatim>\<open>d.isoformat()\<close> of a date: \<^verbatim>\<open>YYYY-MM-DD\<close>, zero padded. A date has a year from
  1 to 9999, so the year has four digits.
\<close>

definition digit_char :: "nat \<Rightarrow> char" where
  "digit_char n = ''0123456789'' ! (n mod 10)"

definition date_isoformat :: "date \<Rightarrow> string" where
  "date_isoformat d =
     [digit_char (year d div 1000), digit_char (year d div 100), digit_char (year d div 10),
      digit_char (year d), CHR ''-'',
      digit_char (month d div 10), digit_char (month d), CHR ''-'',
      digit_char (day d div 10), digit_char (day d)]"

section \<open>Calendar service\<close>

record event =
  evt_id :: int
  evt_title :: json
  evt_start :: json
  evt_end :: json
  evt_attendees :: json

definition event_json :: "event \<Rightarrow> json" where
  "event_json e =
     JObj [(''id'', JInt (evt_id e)), (''title'', evt_title e), (''start'', evt_start e),
           (''end'', evt_end e), (''attendees'', evt_attendees e)]"

definition sample_EVENTS :: "event list" where
  "sample_EVENTS =
    [\<lparr>evt_id = 1, evt_title = JStr ''Team Meeting'', evt_start = JStr ''2024-08-22T09:00:00Z'',
      evt_end = JStr ''2024-08-22T10:00:00Z'',
      evt_attendees = JList [JStr ''john.doe@company.com'', JStr ''jane.smith@company.com'']\<rparr>,
     \<lparr>evt_id = 2, evt_title = JStr ''Project Review'', evt_start = JStr ''2024-08-22T14:00:00Z'',
      evt_end = JStr ''2024-08-22T15:30:00Z'',
      evt_attendees = JList [JStr ''alice.brown@company.com'', JStr ''bob.johnson@company.com'']\<rparr>,
     \<lparr>evt_id = 3, evt_title = JStr ''Client Presentation'',
      evt_start = JStr ''2024-08-23T11:00:00Z'', evt_end = JStr ''2024-08-23T12:00:00Z'',
      evt_attendees = JList [JStr ''john.doe@company.com'', JStr ''alice.brown@company.com'']\<rparr>]"

definition get_events :: "event list \<Rightarrow> event list result" where
  "get_events EVENTS = Inr ((listing ''events'' (map event_json EVENTS), 200), EVENTS)"

definition get_event :: "int \<Rightarrow> event list \<Rightarrow> event list result" where
  "get_event event_id EVENTS =
     (case find (\<lambda>e. evt_id e = event_id) EVENTS of
        Some e \<Rightarrow> Inr ((event_json e, 200), EVENTS)
      | None \<Rightarrow> Inr ((error_body ''Event not found'', 404), EVENTS))"

text \<open>
  \<^verbatim>\<open>datetime.fromisoformat(event['start'].replace('Z', '+00:00')).date()\<close>. Only a string
  has the method \<^verbatim>\<open>replace\<close>.
\<close>

fun date_of_start :: "json \<Rightarrow> py_error + date" where
  "date_of_start (JStr s) =
     (case fromisoformat (py_replace (CHR ''Z'') ''+00:00'' s) of
        Inl err \<Rightarrow> Inl err
      | Inr dt \<Rightarrow> Inr (date_of dt))"
| "date_of_start JNull = Inl AttributeError"
| "date_of_start (JBool b) = Inl AttributeError"
| "date_of_start (JInt n) = Inl AttributeError"
| "date_of_start (JFloat m e) = Inl AttributeError"
| "date_of_start (JList xs) = Inl AttributeError"
| "date_of_start (JObj kv) = Inl AttributeError"

text \<open>The loop of \<^verbatim>\<open>get_today_events\<close>; \<open>today_events\<close> is the list built so far.\<close>

fun today_loop :: "date \<Rightarrow> event list \<Rightarrow> event list \<Rightarrow> py_error + event list" where
  "today_loop today [] today_events = Inr today_events"
| "today_loop today (e # es) today_events =
     (case date_of_start (evt_start e) of
        Inl err \<Rightarrow> Inl err
      | Inr event_date \<Rightarrow>
          today_loop today es (if event_date = today then today_events @ [e] else today_events))"

text \<open>\<open>today\<close> is the clock's reading \<^verbatim>\<open>datetime.now().date()\<close>.\<close>

definition get_today_events :: "date \<Rightarrow> event list \<Rightarrow> event list result" where
  "get_today_events today EVENTS =
     (case today_loop today EVENTS [] of
        Inl err \<Rightarrow> Inl err
      | Inr today_events \<Rightarrow>
          Inr ((JObj [(''events'', JList (map event_json today_events)),
                      (''date'', JStr (date_isoformat today)),
                      (''count'', JInt (int (length today_events)))], 200), EVENTS))"

definition create_event :: "json \<Rightarrow> event list \<Rightarrow> event list result" where
  "create_event data EVENTS =
     (if \<not> truthy data
      then Inr ((error_body ''Title and start time are required'', 400), EVENTS)
      else (case py_in ''title'' data of
        Inl err \<Rightarrow> Inl err
      | Inr has_title \<Rightarrow>
         (if \<not> has_title
          then Inr ((error_body ''Title and start time are required'', 400), EVENTS)
          else (case py_in ''start'' data of
            Inl err \<Rightarrow> Inl err
          | Inr has_start \<Rightarrow>
             (if \<not> has_start
              then Inr ((error_body ''Title and start time are required'', 400), EVENTS)
              else (case py_max (map evt_id EVENTS) of
                Inl err \<Rightarrow> Inl err
              | Inr m \<Rightarrow>
                 (case py_getitem data ''title'' of
                    Inl err \<Rightarrow> Inl err
                  | Inr title \<Rightarrow>
                     (case py_getitem data ''start'' of
                        Inl err \<Rightarrow> Inl err
                      | Inr start \<Rightarrow>
                         (case py_get data ''end'' start of
                            Inl err \<Rightarrow> Inl err
                          | Inr end_time \<Rightarrow>
                             (case py_get data ''attendees'' (JList []) of
                                Inl err \<Rightarrow> Inl err
                              | Inr attendees \<Rightarrow>
                                 (let new_event = \<lparr>evt_id = m + 1, evt_title = title,
                                        evt_start = start, evt_end = end_time,
                                        evt_attendees = attendees\<rparr>
                                  in Inr ((event_json new_event, 201),
                                          EVENTS @ [new_event]))))))))))))"

section \<open>Outlook service\<close>

record email =
  eml_id :: int
  eml_from :: string
  eml_to :: string
  eml_subject :: string
  eml_body :: string
  eml_received :: string
  eml_read :: bool
  eml_important :: bool

definition email_json :: "email \<Rightarrow> json" where
  "email_json e =
     JObj [(''id'', JInt (eml_id e)), (''from'', JStr (eml_from e)), (''to'', JStr (eml_to e)),
           (''subject'', JStr (eml_subject e)), (''body'', JStr (eml_body e)),
           (''received'', JStr (eml_received e)), (''read'', JBool (eml_read e)),
           (''important'', JBool (eml_important e))]"

definition sample_EMAILS :: "email list" where
  "sample_EMAILS =
    [\<lparr>eml_id = 1, eml_from = ''client@example.com'', eml_to = ''john.doe@company.com'',
      eml_subject = ''Project Update Required'',
      eml_body = ''Please provide an update on the current project status.'',
      eml_received = ''2024-08-21T09:15:00Z'', eml_read = False, eml_important = True\<rparr>,
     \<lparr>eml_id = 2, eml_from = ''hr@company.com'', eml_to = ''all@company.com'',
      eml_subject = ''Team Building Event Next Week'',
      eml_body = ''Don't forget about our team building event scheduled for next Friday.'',
      eml_received = ''2024-08-21T11:30:00Z'', eml_read = True, eml_important = False\<rparr>,
     \<lparr>eml_id = 3, eml_from = ''vendor@supplier.com'', eml_to = ''alice.brown@company.com'',
      eml_subject = ''Invoice #12345'',
      eml_body = ''Please find attached invoice for your recent order.'',
      eml_received = ''2024-08-21T14:20:00Z'', eml_read = False, eml_important = False\<rparr>]"

definition get_emails :: "email list \<Rightarrow> email list result" where
  "get_emails EMAILS =
     Inr ((JObj [(''emails'', JList (map email_json EMAILS)),
                 (''count'', JInt (int (length EMAILS))),
                 (''unread_count'', JInt (int (length (filter (\<lambda>e. \<not> eml_read e) EMAILS))))],
           200), EMAILS)"

definition get_email :: "int \<Rightarrow> email list \<Rightarrow> email list result" where
  "get_email email_id EMAILS =
     (case find (\<lambda>e. eml_id e = email_id) EMAILS of
        Some e \<Rightarrow> Inr ((email_json e, 200), EMAILS)
      | None \<Rightarrow> Inr ((error_body ''Email not found'', 404), EMAILS))"

definition get_unread_emails :: "email list \<Rightarrow> email list result" where
  "get_unread_emails EMAILS =
     Inr ((listing ''emails'' (map email_json (filter (\<lambda>e. \<not> eml_read e) EMAILS)), 200),
          EMAILS)"

definition get_important_emails :: "email list \<Rightarrow> email list result" where
  "get_important_emails EMAILS =
     Inr ((listing ''emails'' (map email_json (filter eml_important EMAILS)), 200), EMAILS)"

text \<open>
  \<open>utcnow\<close> is the clock's reading \<^verbatim>\<open>datetime.utcnow().isoformat()\<close>. The handler builds
  \<^verbatim>\<open>new_email\<close> and returns it; the source has no \<^verbatim>\<open>EMAILS.append\<close>.
\<close>

definition send_email :: "string \<Rightarrow> json \<Rightarrow> email list \<Rightarrow> email list result" where
  "send_email utcnow data EMAILS =
     (if \<not> truthy data then Inr ((error_body ''To and subject are required'', 400), EMAILS)
      else (case py_in ''to'' data of
        Inl err \<Rightarrow> Inl err
      | Inr has_to \<Rightarrow>
         (if \<not> has_to then Inr ((error_body ''To and subject are required'', 400), EMAILS)
          else (case py_in ''subject'' data of
            Inl err \<Rightarrow> Inl err
          | Inr has_subject \<Rightarrow>
             (if \<not> has_subject
              then Inr ((error_body ''To and subject are required'', 400), EMAILS)
              else (case py_max (map eml_id EMAILS) of
                Inl err \<Rightarrow> Inl err
              | Inr m \<Rightarrow>
                 (case py_get data ''from'' (JStr ''user@company.com'') of
                    Inl err \<Rightarrow> Inl err
                  | Inr sender \<Rightarrow>
                     (case py_getitem data ''to'' of
                        Inl err \<Rightarrow> Inl err
                      | Inr recipient \<Rightarrow>
                         (case py_getitem data ''subject'' of
                            Inl err \<Rightarrow> Inl err
                          | Inr subject \<Rightarrow>
                             (case py_get data ''body'' (JStr '''') of
                                Inl err \<Rightarrow> Inl err
                              | Inr body \<Rightarrow>
                                 (let new_email = JObj [(''id'', JInt (m + 1)),
                                        (''from'', sender), (''to'', recipient),
                                        (''subject'', subject), (''body'', body),
                                        (''sent'', JStr (utcnow @ ''Z'')),
                                        (''status'', JStr ''sent'')]
                                  in Inr ((JObj [(''message'', JStr ''Email sent successfully''),
                                                 (''email'', new_email)], 201),
                                          EMAILS))))))))))))"

section \<open>Teams service\<close>

record team =
  tm_id :: int
  tm_name :: string
  tm_members :: "string list"
  tm_created :: string

record message =
  msg_id :: int
  msg_team_id :: int
  msg_from :: json
  msg_message :: json
  msg_timestamp :: string
  msg_type :: string

record meeting =
  mtg_id :: int
  mtg_team_id :: int
  mtg_title :: string
  mtg_start :: string
  mtg_duration :: int
  mtg_participants :: "string list"

definition team_json :: "team \<Rightarrow> json" where
  "team_json t =
     JObj [(''id'', JInt (tm_id t)), (''name'', JStr (tm_name t)),
           (''members'', JList (map JStr (tm_members t))), (''created'', JStr (tm_created t))]"

definition message_json :: "message \<Rightarrow> json" where
  "message_json m =
     JObj [(''id'', JInt (msg_id m)), (''team_id'', JInt (msg_team_id m)),
           (''from'', msg_from m), (''message'', msg_message m),
           (''timestamp'', JStr (msg_timestamp m)), (''type'', JStr (msg_type m))]"

definition meeting_json :: "meeting \<Rightarrow> json" where
  "meeting_json m =
     JObj [(''id'', JInt (mtg_id m)), (''team_id'', JInt (mtg_team_id m)),
           (''title'', JStr (mtg_title m)), (''start'', JStr (mtg_start m)),
           (''duration'', JInt (mtg_duration m)),
           (''participants'', JList (map JStr (mtg_participants m)))]"

definition sample_TEAMS :: "team list" where
  "sample_TEAMS =
    [\<lparr>tm_id = 1, tm_name = ''Development Team'',
      tm_members = [''john.doe@company.com'', ''jane.smith@company.com'',
                    ''bob.johnson@company.com''],
      tm_created = ''2024-01-15T10:00:00Z''\<rparr>,
     \<lparr>tm_id = 2, tm_name = ''Marketing Team'',
      tm_members = [''alice.brown@company.com'', ''jane.smith@company.com''],
      tm_created = ''2024-02-01T14:30:00Z''\<rparr>]"

definition sample_MESSAGES :: "message list" where
  "sample_MESSAGES =
    [\<lparr>msg_id = 1, msg_team_id = 1, msg_from = JStr ''john.doe@company.com'',
      msg_message = JStr ''Good morning everyone! Ready for today's sprint review?'',
      msg_timestamp = ''2024-08-21T08:30:00Z'', msg_type = ''text''\<rparr>,
     \<lparr>msg_id = 2, msg_team_id = 1, msg_from = JStr ''jane.smith@company.com'',
      msg_message = JStr ''Yes! I've prepared the demo for the new features.'',
      msg_timestamp = ''2024-08-21T08:32:00Z'', msg_type = ''text''\<rparr>,
     \<lparr>msg_id = 3, msg_team_id = 2, msg_from = JStr ''alice.brown@company.com'',
      msg_message = JStr ''The new campaign metrics look promising!'',
      msg_timestamp = ''2024-08-21T10:15:00Z'', msg_type = ''text''\<rparr>]"

definition sample_MEETINGS :: "meeting list" where
  "sample_MEETINGS =
    [\<lparr>mtg_id = 1, mtg_team_id = 1, mtg_title = ''Daily Standup'',
      mtg_start = ''2024-08-22T09:00:00Z'', mtg_duration = 30,
      mtg_participants = [''john.doe@company.com'', ''jane.smith@company.com'']\<rparr>]"

definition get_teams :: "team list \<Rightarrow> team list result" where
  "get_teams TEAMS = Inr ((listing ''teams'' (map team_json TEAMS), 200), TEAMS)"

definition get_team :: "int \<Rightarrow> team list \<Rightarrow> team list result" where
  "get_team team_id TEAMS =
     (case find (\<lambda>t. tm_id t = team_id) TEAMS of
        Some t \<Rightarrow> Inr ((team_json t, 200), TEAMS)
      | None \<Rightarrow> Inr ((error_body ''Team not found'', 404), TEAMS))"

definition get_team_messages :: "int \<Rightarrow> message list \<Rightarrow> message list result" where
  "get_team_messages team_id MESSAGES =
     (let team_messages = filter (\<lambda>m. msg_team_id m = team_id) MESSAGES
      in Inr ((JObj [(''messages'', JList (map message_json team_messages)),
                     (''count'', JInt (int (length team_messages))),
                     (''team_id'', JInt team_id)], 200), MESSAGES))"

text \<open>
  The handler reads \<^verbatim>\<open>TEAMS\<close> and appends to \<^verbatim>\<open>MESSAGES\<close>; \<open>utcnow\<close> is the clock's
  reading \<^verbatim>\<open>datetime.utcnow().isoformat()\<close>.
\<close>

definition send_team_message ::
  "string \<Rightarrow> int \<Rightarrow> json \<Rightarrow> team list \<Rightarrow> message list \<Rightarrow> message list result" where
  "send_team_message utcnow team_id data TEAMS MESSAGES =
     (if \<not> truthy data then Inr ((error_body ''Message content is required'', 400), MESSAGES)
      else (case py_in ''message'' data of
        Inl err \<Rightarrow> Inl err
      | Inr has_message \<Rightarrow>
         (if \<not> has_message
          then Inr ((error_body ''Message content is required'', 400), MESSAGES)
          else (case find (\<lambda>t. tm_id t = team_id) TEAMS of
            None \<Rightarrow> Inr ((error_body ''Team not found'', 404), MESSAGES)
          | Some team \<Rightarrow>
             (case py_max (map msg_id MESSAGES) of
                Inl err \<Rightarrow> Inl err
              | Inr m \<Rightarrow>
                 (case py_get data ''from'' (JStr ''user@company.com'') of
                    Inl err \<Rightarrow> Inl err
                  | Inr sender \<Rightarrow>
                     (case py_getitem data ''message'' of
                        Inl err \<Rightarrow> Inl err
                      | Inr content \<Rightarrow>
                         (let new_message = \<lparr>msg_id = m + 1, msg_team_id = team_id,
                                msg_from = sender, msg_message = content,
                                msg_timestamp = utcnow @ ''Z'', msg_type = ''text''\<rparr>
                          in Inr ((message_json new_message, 201),
                                  MESSAGES @ [new_message])))))))))"

definition get_meetings :: "meeting list \<Rightarrow> meeting list result" where
  "get_meetings MEETINGS =
     Inr ((listing ''meetings'' (map meeting_json MEETINGS), 200), MEETINGS)"

section \<open>OneDrive service\<close>

record drive_file =
  fil_id :: int
  fil_name :: string
  fil_size :: int
  fil_type :: string
  fil_modified :: string
  fil_owner :: string
  fil_shared :: bool

record folder =
  fld_id :: int
  fld_name :: string
  fld_file_count :: int

definition file_json :: "drive_file \<Rightarrow> json" where
  "file_json f =
     JObj [(''id'', JInt (fil_id f)), (''name'', JStr (fil_name f)),
           (''size'', JInt (fil_size f)), (''type'', JStr (fil_type f)),
           (''modified'', JStr (fil_modified f)), (''owner'', JStr (fil_owner f)),
           (''shared'', JBool (fil_shared f))]"

definition folder_json :: "folder \<Rightarrow> json" where
  "folder_json f =
     JObj [(''id'', JInt (fld_id f)), (''name'', JStr (fld_name f)),
           (''file_count'', JInt (fld_file_count f))]"

definition sample_FILES :: "drive_file list" where
  "sample_FILES =
    [\<lparr>fil_id = 1, fil_name = ''Project Proposal.docx'', fil_size = 2048576,
      fil_type = ''document'', fil_modified = ''2024-08-20T10:30:00Z'',
      fil_owner = ''john.doe@company.com'', fil_shared = True\<rparr>,
     \<lparr>fil_id = 2, fil_name = ''Budget Report.xlsx'', fil_size = 1024000,
      fil_type = ''spreadsheet'', fil_modified = ''2024-08-21T14:15:00Z'',
      fil_owner = ''alice.brown@company.com'', fil_shared = False\<rparr>,
     \<lparr>fil_id = 3, fil_name = ''Presentation.pptx'', fil_size = 5242880,
      fil_type = ''presentation'', fil_modified = ''2024-08-21T16:45:00Z'',
      fil_owner = ''jane.smith@company.com'', fil_shared = True\<rparr>]"

definition sample_FOLDERS :: "folder list" where
  "sample_FOLDERS =
    [\<lparr>fld_id = 1, fld_name = ''Projects'', fld_file_count = 15\<rparr>,
     \<lparr>fld_id = 2, fld_name = ''Reports'', fld_file_count = 8\<rparr>,
     \<lparr>fld_id = 3, fld_name = ''Templates'', fld_file_count = 12\<rparr>]"

definition get_files :: "drive_file list \<Rightarrow> drive_file list result" where
  "get_files FILES = Inr ((listing ''files'' (map file_json FILES), 200), FILES)"

definition get_file :: "int \<Rightarrow> drive_file list \<Rightarrow> drive_file list result" where
  "get_file file_id FILES =
     (case find (\<lambda>f. fil_id f = file_id) FILES of
        Some f \<Rightarrow> Inr ((file_json f, 200), FILES)
      | None \<Rightarrow> Inr ((error_body ''File not found'', 404), FILES))"

definition get_folders :: "folder list \<Rightarrow> folder list result" where
  "get_folders FOLDERS = Inr ((listing ''folders'' (map folder_json FOLDERS), 200), FOLDERS)"

definition get_shared_files :: "drive_file list \<Rightarrow> drive_file list result" where
  "get_shared_files FILES =
     Inr ((listing ''files'' (map file_json (filter fil_shared FILES)), 200), FILES)"

section \<open>The collections a running service can hold\<close>

text \<open>
  Each service starts with its sample data, and only the creating handlers return a
  collection other than the one they were given. A call that raises leaves the collection
  as it was, so only calls that return a response are steps. The Teams, Meetings, Files and
  Folders collections have no creating handler: they stay the sample data.
\<close>

inductive reachable_USERS :: "user list \<Rightarrow> bool" where
  start: "reachable_USERS sample_USERS"
| post: "reachable_USERS USERS \<Longrightarrow> create_user data USERS = Inr (r, USERS') \<Longrightarrow>
      reachable_USERS USERS'"

inductive reachable_EVENTS :: "event list \<Rightarrow> bool" where
  start: "reachable_EVENTS sample_EVENTS"
| post: "reachable_EVENTS EVENTS \<Longrightarrow> create_event data EVENTS = Inr (r, EVENTS') \<Longrightarrow>
      reachable_EVENTS EVENTS'"

inductive reachable_EMAILS :: "email list \<Rightarrow> bool" where
  start: "reachable_EMAILS sample_EMAILS"
| post: "reachable_EMAILS EMAILS \<Longrightarrow> send_email utcnow data EMAILS = Inr (r, EMAILS') \<Longrightarrow>
      reachable_EMAILS EMAILS'"

inductive reachable_MESSAGES :: "message list \<Rightarrow> bool" where
  start: "reachable_MESSAGES sample_MESSAGES"
| post: "reachable_MESSAGES MESSAGES \<Longrightarrow>
      send_team_message utcnow team_id data sample_TEAMS MESSAGES = Inr (r, MESSAGES') \<Longrightarrow>
      reachable_MESSAGES MESSAGES'"

section \<open>Lemmas about the Python operations\<close>

lemma py_max_Max: "xs \<noteq> [] \<Longrightarrow> py_max xs = Inr (Max (set xs))"
proof (cases xs)
  case Nil
  assume "xs \<noteq> []"
  with Nil show ?thesis by simp
next
  case (Cons a list)
  then show ?thesis
    using Max.set_eq_fold [of a list] by simp
qed

lemma py_max_Inr: "py_max xs = Inr m \<Longrightarrow> xs \<noteq> [] \<and> m = Max (set xs)"
proof (cases xs)
  case Nil
  assume "py_max xs = Inr m"
  with Nil show ?thesis by simp
next
  case (Cons a list)
  assume "py_max xs = Inr m"
  with Cons show ?thesis
    using Max.set_eq_fold [of a list] by simp
qed

lemma Max_snoc_next:
  fixes xs :: "int list"
  assumes "xs \<noteq> []"
  shows "Max (set (xs @ [Max (set xs) + 1])) = Max (set xs) + 1"
proof -
  have "Max (insert (Max (set xs) + 1) (set xs)) = max (Max (set xs) + 1) (Max (set xs))"
    using assms by (intro Max_insert) simp_all
  then show ?thesis by simp
qed

lemma next_id_fresh:
  fixes xs :: "int list"
  shows "Max (set xs) + 1 \<notin> set xs"
proof
  assume "Max (set xs) + 1 \<in> set xs"
  then have "Max (set xs) + 1 \<le> Max (set xs)"
    by (intro Max_ge) simp_all
  then show False by simp
qed

lemma distinct_snoc_next:
  fixes xs :: "int list"
  shows "distinct xs \<Longrightarrow> distinct (xs @ [Max (set xs) + 1])"
  using next_id_fresh [of xs] by simp

lemma find_absent: "i \<notin> f ` set xs \<Longrightarrow> find (\<lambda>x. f x = i) xs = None"
  by (auto simp: find_None_iff)

lemma find_first_match:
  "f x = i \<Longrightarrow> i \<notin> f ` set pre \<Longrightarrow> find (\<lambda>y. f y = i) (pre @ x # post) = Some x"
  by (induction pre) auto

section \<open>Lemmas about the creating handlers\<close>

subsection \<open>When a creating handler answers 201, and what it then did\<close>

lemma create_user_created:
  assumes "create_user data USERS = Inr ((body, 201), USERS')"
  shows "\<exists>name email role.
    truthy data \<and> py_in ''name'' data = Inr True \<and> USERS \<noteq> []
    \<and> py_getitem data ''name'' = Inr name
    \<and> py_get data ''email'' (JStr '''') = Inr email
    \<and> py_get data ''role'' (JStr ''user'') = Inr role
    \<and> body = user_json \<lparr>usr_id = Max (set (map usr_id USERS)) + 1, usr_name = name,
                          usr_email = email, usr_role = role\<rparr>
    \<and> USERS' = USERS @ [\<lparr>usr_id = Max (set (map usr_id USERS)) + 1, usr_name = name,
                          usr_email = email, usr_role = role\<rparr>]"
  using assms unfolding create_user_def error_body_def
  by (auto split: if_splits sum.splits dest!: py_max_Inr)

lemma create_user_accepts:
  assumes "truthy data" "py_in ''name'' data = Inr True" "USERS \<noteq> []"
    "py_getitem data ''name'' = Inr name"
    "py_get data ''email'' (JStr '''') = Inr email"
    "py_get data ''role'' (JStr ''user'') = Inr role"
  shows "create_user data USERS =
    Inr ((user_json \<lparr>usr_id = Max (set (map usr_id USERS)) + 1, usr_name = name,
                      usr_email = email, usr_role = role\<rparr>, 201),
         USERS @ [\<lparr>usr_id = Max (set (map usr_id USERS)) + 1, usr_name = name,
                    usr_email = email, usr_role = role\<rparr>])"
  using assms by (simp add: create_user_def py_max_Max)

lemma create_event_created:
  assumes "create_event data EVENTS = Inr ((body, 201), EVENTS')"
  shows "\<exists>title start end_time attendees.
    truthy data \<and> py_in ''title'' data = Inr True \<and> py_in ''start'' data = Inr True
    \<and> EVENTS \<noteq> []
    \<and> py_getitem data ''title'' = Inr title
    \<and> py_getitem data ''start'' = Inr start
    \<and> py_get data ''end'' start = Inr end_time
    \<and> py_get data ''attendees'' (JList []) = Inr attendees
    \<and> body = event_json \<lparr>evt_id = Max (set (map evt_id EVENTS)) + 1, evt_title = title,
                           evt_start = start, evt_end = end_time, evt_attendees = attendees\<rparr>
    \<and> EVENTS' = EVENTS @ [\<lparr>evt_id = Max (set (map evt_id EVENTS)) + 1, evt_title = title,
                           evt_start = start, evt_end = end_time, evt_attendees = attendees\<rparr>]"
  using assms unfolding create_event_def error_body_def
  by (auto split: if_splits sum.splits dest!: py_max_Inr)

lemma create_event_accepts:
  assumes "truthy data" "py_in ''title'' data = Inr True" "py_in ''start'' data = Inr True"
    "EVENTS \<noteq> []"
    "py_getitem data ''title'' = Inr title"
    "py_getitem data ''start'' = Inr start"
    "py_get data ''end'' start = Inr end_time"
    "py_get data ''attendees'' (JList []) = Inr attendees"
  shows "create_event data EVENTS =
    Inr ((event_json \<lparr>evt_id = Max (set (map evt_id EVENTS)) + 1, evt_title = title,
                       evt_start = start, evt_end = end_time, evt_attendees = attendees\<rparr>, 201),
         EVENTS @ [\<lparr>evt_id = Max (set (map evt_id EVENTS)) + 1, evt_title = title,
                     evt_start = start, evt_end = end_time, evt_attendees = attendees\<rparr>])"
  using assms by (simp add: create_event_def py_max_Max)

lemma send_team_message_created:
  assumes "send_team_message utcnow team_id data TEAMS MESSAGES = Inr ((body, 201), MESSAGES')"
  shows "\<exists>team sender content.
    truthy data \<and> py_in ''message'' data = Inr True
    \<and> find (\<lambda>t. tm_id t = team_id) TEAMS = Some team \<and> MESSAGES \<noteq> []
    \<and> py_get data ''from'' (JStr ''user@company.com'') = Inr sender
    \<and> py_getitem data ''message'' = Inr content
    \<and> body = message_json \<lparr>msg_id = Max (set (map msg_id MESSAGES)) + 1,
          msg_team_id = team_id, msg_from = sender, msg_message = content,
          msg_timestamp = utcnow @ ''Z'', msg_type = ''text''\<rparr>
    \<and> MESSAGES' = MESSAGES @ [\<lparr>msg_id = Max (set (map msg_id MESSAGES)) + 1,
          msg_team_id = team_id, msg_from = sender, msg_message = content,
          msg_timestamp = utcnow @ ''Z'', msg_type = ''text''\<rparr>]"
  using assms unfolding send_team_message_def error_body_def
  by (auto split: if_splits sum.splits option.splits dest!: py_max_Inr)

lemma send_team_message_accepts:
  assumes "truthy data" "py_in ''message'' data = Inr True"
    "find (\<lambda>t. tm_id t = team_id) TEAMS = Some team" "MESSAGES \<noteq> []"
    "py_get data ''from'' (JStr ''user@company.com'') = Inr sender"
    "py_getitem data ''message'' = Inr content"
  shows "send_team_message utcnow team_id data TEAMS MESSAGES =
    Inr ((message_json \<lparr>msg_id = Max (set (map msg_id MESSAGES)) + 1,
            msg_team_id = team_id, msg_from = sender, msg_message = content,
            msg_timestamp = utcnow @ ''Z'', msg_type = ''text''\<rparr>, 201),
         MESSAGES @ [\<lparr>msg_id = Max (set (map msg_id MESSAGES)) + 1,
            msg_team_id = team_id, msg_from = sender, msg_message = content,
            msg_timestamp = utcnow @ ''Z'', msg_type = ''text''\<rparr>])"
  using assms by (simp add: send_team_message_def py_max_Max)

lemma send_email_created:
  assumes "send_email utcnow data EMAILS = Inr ((body, 201), EMAILS')"
  shows "\<exists>sender recipient subject text.
    truthy data \<and> py_in ''to'' data = Inr True \<and> py_in ''subject'' data = Inr True
    \<and> EMAILS \<noteq> []
    \<and> py_get data ''from'' (JStr ''user@company.com'') = Inr sender
    \<and> py_getitem data ''to'' = Inr recipient
    \<and> py_getitem data ''subject'' = Inr subject
    \<and> py_get data ''body'' (JStr '''') = Inr text
    \<and> body = JObj [(''message'', JStr ''Email sent successfully''),
          (''email'', JObj [(''id'', JInt (Max (set (map eml_id EMAILS)) + 1)),
             (''from'', sender), (''to'', recipient), (''subject'', subject),
             (''body'', text), (''sent'', JStr (utcnow @ ''Z'')), (''status'', JStr ''sent'')])]
    \<and> EMAILS' = EMAILS"
  using assms unfolding send_email_def error_body_def
  by (auto split: if_splits sum.splits dest!: py_max_Inr)

lemma send_email_accepts:
  assumes "truthy data" "py_in ''to'' data = Inr True" "py_in ''subject'' data = Inr True"
    "EMAILS \<noteq> []"
    "py_get data ''from'' (JStr ''user@company.com'') = Inr sender"
    "py_getitem data ''to'' = Inr recipient"
    "py_getitem data ''subject'' = Inr subject"
    "py_get data ''body'' (JStr '''') = Inr text"
  shows "send_email utcnow data EMAILS =
    Inr ((JObj [(''message'', JStr ''Email sent successfully''),
          (''email'', JObj [(''id'', JInt (Max (set (map eml_id EMAILS)) + 1)),
             (''from'', sender), (''to'', recipient), (''subject'', subject),
             (''body'', text), (''sent'', JStr (utcnow @ ''Z'')), (''status'', JStr ''sent'')])],
          201), EMAILS)"
  using assms by (simp add: send_email_def py_max_Max)

subsection \<open>A call that does not answer 201 leaves the collection as it was\<close>

lemma create_user_other:
  "create_user data USERS = Inr ((body, st), USERS') \<Longrightarrow> st \<noteq> 201 \<Longrightarrow> USERS' = USERS"
  unfolding create_user_def
  by (auto simp: Let_def split: if_splits sum.splits)

lemma create_event_other:
  "create_event data EVENTS = Inr ((body, st), EVENTS') \<Longrightarrow> st \<noteq> 201 \<Longrightarrow> EVENTS' = EVENTS"
  unfolding create_event_def
  by (auto simp: Let_def split: if_splits sum.splits)

lemma send_team_message_other:
  "send_team_message utcnow team_id data TEAMS MESSAGES = Inr ((body, st), MESSAGES') \<Longrightarrow>
     st \<noteq> 201 \<Longrightarrow> MESSAGES' = MESSAGES"
  unfolding send_team_message_def
  by (auto simp: Let_def split: if_splits sum.splits option.splits)

lemma send_email_same:
  "send_email utcnow data EMAILS = Inr (r, EMAILS') \<Longrightarrow> EMAILS' = EMAILS"
  unfolding send_email_def
  by (auto simp: Let_def split: if_splits sum.splits)

subsection \<open>The same request sent twice\<close>

lemma create_user_twice:
  assumes "create_user data USERS = Inr ((body, 201), USERS1)"
  shows "\<exists>u1 u2. body = user_json u1 \<and> USERS1 = USERS @ [u1]
    \<and> create_user data USERS1 = Inr ((user_json u2, 201), USERS @ [u1, u2])
    \<and> usr_id u2 = usr_id u1 + 1"
proof -
  from create_user_created [OF assms] obtain name email role where
    ok: "truthy data" "py_in ''name'' data = Inr True" "USERS \<noteq> []"
      "py_getitem data ''name'' = Inr name"
      "py_get data ''email'' (JStr '''') = Inr email"
      "py_get data ''role'' (JStr ''user'') = Inr role"
    and body: "body = user_json \<lparr>usr_id = Max (set (map usr_id USERS)) + 1, usr_name = name,
        usr_email = email, usr_role = role\<rparr>"
    and USERS1: "USERS1 = USERS @ [\<lparr>usr_id = Max (set (map usr_id USERS)) + 1,
        usr_name = name, usr_email = email, usr_role = role\<rparr>]"
    by blast
  have ne: "USERS1 \<noteq> []"
    using USERS1 by simp
  have mx: "Max (set (map usr_id USERS1)) = Max (set (map usr_id USERS)) + 1"
    using Max_snoc_next [of "map usr_id USERS"] ok(3) USERS1 by simp
  let ?r1 = "\<lparr>usr_id = Max (set (map usr_id USERS)) + 1, usr_name = name,
          usr_email = email, usr_role = role\<rparr>"
  let ?r2 = "\<lparr>usr_id = Max (set (map usr_id USERS)) + 1 + 1, usr_name = name,
          usr_email = email, usr_role = role\<rparr>"
  have "body = user_json ?r1 \<and> USERS1 = USERS @ [?r1]
      \<and> create_user data USERS1 = Inr ((user_json ?r2, 201), USERS @ [?r1, ?r2])
      \<and> usr_id ?r2 = usr_id ?r1 + 1"
    using create_user_accepts [OF ok(1,2) ne ok(4,5,6)] body USERS1 mx
    by simp
  then show ?thesis
    by blast
qed

lemma create_event_twice:
  assumes "create_event data EVENTS = Inr ((body, 201), EVENTS1)"
  shows "\<exists>e1 e2. body = event_json e1 \<and> EVENTS1 = EVENTS @ [e1]
    \<and> create_event data EVENTS1 = Inr ((event_json e2, 201), EVENTS @ [e1, e2])
    \<and> evt_id e2 = evt_id e1 + 1"
proof -
  from create_event_created [OF assms] obtain title start end_time attendees where
    ok: "truthy data" "py_in ''title'' data = Inr True" "py_in ''start'' data = Inr True"
      "EVENTS \<noteq> []"
      "py_getitem data ''title'' = Inr title"
      "py_getitem data ''start'' = Inr start"
      "py_get data ''end'' start = Inr end_time"
      "py_get data ''attendees'' (JList []) = Inr attendees"
    and body: "body = event_json \<lparr>evt_id = Max (set (map evt_id EVENTS)) + 1,
        evt_title = title, evt_start = start, evt_end = end_time, evt_attendees = attendees\<rparr>"
    and EVENTS1: "EVENTS1 = EVENTS @ [\<lparr>evt_id = Max (set (map evt_id EVENTS)) + 1,
        evt_title = title, evt_start = start, evt_end = end_time, evt_attendees = attendees\<rparr>]"
    by blast
  have ne: "EVENTS1 \<noteq> []"
    using EVENTS1 by simp
  have mx: "Max (set (map evt_id EVENTS1)) = Max (set (map evt_id EVENTS)) + 1"
    using Max_snoc_next [of "map evt_id EVENTS"] ok(4) EVENTS1 by simp
  let ?r1 = "\<lparr>evt_id = Max (set (map evt_id EVENTS)) + 1, evt_title = title,
          evt_start = start, evt_end = end_time, evt_attendees = attendees\<rparr>"
  let ?r2 = "\<lparr>evt_id = Max (set (map evt_id EVENTS)) + 1 + 1, evt_title = title,
          evt_start = start, evt_end = end_time, evt_attendees = attendees\<rparr>"
  have "body = event_json ?r1 \<and> EVENTS1 = EVENTS @ [?r1]
      \<and> create_event data EVENTS1 = Inr ((event_json ?r2, 201), EVENTS @ [?r1, ?r2])
      \<and> evt_id ?r2 = evt_id ?r1 + 1"
    using create_event_accepts [OF ok(1,2,3) ne ok(5,6,7,8)] body EVENTS1 mx
    by simp
  then show ?thesis
    by blast
qed

lemma send_team_message_twice:
  assumes "send_team_message utcnow team_id data TEAMS MESSAGES = Inr ((body, 201), MESSAGES1)"
  shows "\<exists>m1 m2. body = message_json m1 \<and> MESSAGES1 = MESSAGES @ [m1]
    \<and> send_team_message utcnow2 team_id data TEAMS MESSAGES1 =
        Inr ((message_json m2, 201), MESSAGES @ [m1, m2])
    \<and> msg_id m2 = msg_id m1 + 1"
proof -
  from send_team_message_created [OF assms] obtain team sender content where
    ok: "truthy data" "py_in ''message'' data = Inr True"
      "find (\<lambda>t. tm_id t = team_id) TEAMS = Some team" "MESSAGES \<noteq> []"
      "py_get data ''from'' (JStr ''user@company.com'') = Inr sender"
      "py_getitem data ''message'' = Inr content"
    and body: "body = message_json \<lparr>msg_id = Max (set (map msg_id MESSAGES)) + 1,
        msg_team_id = team_id, msg_from = sender, msg_message = content,
        msg_timestamp = utcnow @ ''Z'', msg_type = ''text''\<rparr>"
    and MESSAGES1: "MESSAGES1 = MESSAGES @ [\<lparr>msg_id = Max (set (map msg_id MESSAGES)) + 1,
        msg_team_id = team_id, msg_from = sender, msg_message = content,
        msg_timestamp = utcnow @ ''Z'', msg_type = ''text''\<rparr>]"
    by blast
  have ne: "MESSAGES1 \<noteq> []"
    using MESSAGES1 by simp
  have mx: "Max (set (map msg_id MESSAGES1)) = Max (set (map msg_id MESSAGES)) + 1"
    using Max_snoc_next [of "map msg_id MESSAGES"] ok(4) MESSAGES1 by simp
  let ?r1 = "\<lparr>msg_id = Max (set (map msg_id MESSAGES)) + 1,
          msg_team_id = team_id, msg_from = sender, msg_message = content,
          msg_timestamp = utcnow @ ''Z'', msg_type = ''text''\<rparr>"
  let ?r2 = "\<lparr>msg_id = Max (set (map msg_id MESSAGES)) + 1 + 1,
          msg_team_id = team_id, msg_from = sender, msg_message = content,
          msg_timestamp = utcnow2 @ ''Z'', msg_type = ''text''\<rparr>"
  have "body = message_json ?r1 \<and> MESSAGES1 = MESSAGES @ [?r1]
      \<and> send_team_message utcnow2 team_id data TEAMS MESSAGES1 =
          Inr ((message_json ?r2, 201), MESSAGES @ [?r1, ?r2])
      \<and> msg_id ?r2 = msg_id ?r1 + 1"
    using send_team_message_accepts [OF ok(1,2,3) ne ok(5,6), of utcnow2] body MESSAGES1 mx
    by simp
  then show ?thesis
    by blast
qed

lemma send_email_twice:
  assumes "send_email utcnow data EMAILS = Inr ((body, 201), EMAILS1)"
  shows "\<exists>fields1 fields2. EMAILS1 = EMAILS
    \<and> body = JObj [(''message'', JStr ''Email sent successfully''),
         (''email'', JObj ((''id'', JInt (Max (set (map eml_id EMAILS)) + 1)) # fields1))]
    \<and> send_email utcnow2 data EMAILS1 =
        Inr ((JObj [(''message'', JStr ''Email sent successfully''),
          (''email'', JObj ((''id'', JInt (Max (set (map eml_id EMAILS)) + 1)) # fields2))], 201),
          EMAILS)"
proof -
  from send_email_created [OF assms] obtain sender recipient subject content where
    ok: "truthy data" "py_in ''to'' data = Inr True" "py_in ''subject'' data = Inr True"
      "EMAILS \<noteq> []"
      "py_get data ''from'' (JStr ''user@company.com'') = Inr sender"
      "py_getitem data ''to'' = Inr recipient"
      "py_getitem data ''subject'' = Inr subject"
      "py_get data ''body'' (JStr '''') = Inr content"
    and body: "body = JObj [(''message'', JStr ''Email sent successfully''),
          (''email'', JObj [(''id'', JInt (Max (set (map eml_id EMAILS)) + 1)),
             (''from'', sender), (''to'', recipient), (''subject'', subject),
             (''body'', content), (''sent'', JStr (utcnow @ ''Z'')), (''status'', JStr ''sent'')])]"
    and EMAILS1: "EMAILS1 = EMAILS"
    by blast
  show ?thesis
    using send_email_accepts [OF ok, of utcnow2] body EMAILS1
    by simp
qed

subsection \<open>Ids stay unique in every reachable collection\<close>

lemma reachable_USERS_distinct: "reachable_USERS USERS \<Longrightarrow> distinct (map usr_id USERS)"
proof (induction rule: reachable_USERS.induct)
  case start
  show ?case by (simp add: sample_USERS_def)
next
  case (post USERS data r USERS')
  obtain body st where r: "r = (body, st)" by (cases r)
  show ?case
  proof (cases "st = 201")
    case True
    with post.hyps(2) r have "create_user data USERS = Inr ((body, 201), USERS')" by simp
    from create_user_created [OF this]
    have "map usr_id USERS' = map usr_id USERS @ [Max (set (map usr_id USERS)) + 1]" by auto
    with post.IH show ?thesis by (simp only: distinct_snoc_next)
  next
    case False
    with post.hyps(2) r have "USERS' = USERS" by (auto dest: create_user_other)
    with post.IH show ?thesis by simp
  qed
qed

lemma reachable_EVENTS_distinct: "reachable_EVENTS EVENTS \<Longrightarrow> distinct (map evt_id EVENTS)"
proof (induction rule: reachable_EVENTS.induct)
  case start
  show ?case by (simp add: sample_EVENTS_def)
next
  case (post EVENTS data r EVENTS')
  obtain body st where r: "r = (body, st)" by (cases r)
  show ?case
  proof (cases "st = 201")
    case True
    with post.hyps(2) r have "create_event data EVENTS = Inr ((body, 201), EVENTS')" by simp
    from create_event_created [OF this]
    have "map evt_id EVENTS' = map evt_id EVENTS @ [Max (set (map evt_id EVENTS)) + 1]" by auto
    with post.IH show ?thesis by (simp only: distinct_snoc_next)
  next
    case False
    with post.hyps(2) r have "EVENTS' = EVENTS" by (auto dest: create_event_other)
    with post.IH show ?thesis by simp
  qed
qed

lemma reachable_MESSAGES_distinct:
  "reachable_MESSAGES MESSAGES \<Longrightarrow> distinct (map msg_id MESSAGES)"
proof (induction rule: reachable_MESSAGES.induct)
  case start
  show ?case by (simp add: sample_MESSAGES_def)
next
  case (post MESSAGES utcnow team_id data r MESSAGES')
  obtain body st where r: "r = (body, st)" by (cases r)
  show ?case
  proof (cases "st = 201")
    case True
    with post.hyps(2) r
    have "send_team_message utcnow team_id data sample_TEAMS MESSAGES =
        Inr ((body, 201), MESSAGES')" by simp
    from send_team_message_created [OF this]
    have "map msg_id MESSAGES' = map msg_id MESSAGES @ [Max (set (map msg_id MESSAGES)) + 1]"
      by auto
    with post.IH show ?thesis by (simp only: distinct_snoc_next)
  next
    case False
    with post.hyps(2) r have "MESSAGES' = MESSAGES" by (auto dest: send_team_message_other)
    with post.IH show ?thesis by simp
  qed
qed

lemma reachable_EMAILS_sample: "reachable_EMAILS EMAILS \<Longrightarrow> EMAILS = sample_EMAILS"
  by (induction rule: reachable_EMAILS.induct) (auto dest: send_email_same)

lemma reachable_EMAILS_distinct: "reachable_EMAILS EMAILS \<Longrightarrow> distinct (map eml_id EMAILS)"
  by (auto dest!: reachable_EMAILS_sample simp: sample_EMAILS_def)

subsection \<open>A creating handler on an empty collection\<close>

lemma create_user_empty:
  "map_of kv ''name'' \<noteq> None \<Longrightarrow> create_user (JObj kv) [] = Inl ValueError"
  by (auto simp: create_user_def)

lemma create_event_empty:
  "map_of kv ''title'' \<noteq> None \<Longrightarrow> map_of kv ''start'' \<noteq> None \<Longrightarrow>
     create_event (JObj kv) [] = Inl ValueError"
  by (auto simp: create_event_def)

lemma send_team_message_empty:
  "map_of kv ''message'' \<noteq> None \<Longrightarrow> find (\<lambda>t. tm_id t = team_id) TEAMS \<noteq> None \<Longrightarrow>
     send_team_message utcnow team_id (JObj kv) TEAMS [] = Inl ValueError"
  by (auto simp: send_team_message_def)

lemma send_email_empty:
  "map_of kv ''to'' \<noteq> None \<Longrightarrow> map_of kv ''subject'' \<noteq> None \<Longrightarrow>
     send_email utcnow (JObj kv) [] = Inl ValueError"
  by (auto simp: send_email_def)

section \<open>Lemmas about GET /events/today\<close>

subsection \<open>The loop over the events\<close>

lemma today_loop_all_parse:
  "\<forall>e \<in> set es. \<exists>d. date_of_start (evt_start e) = Inr d \<Longrightarrow>
     today_loop today es acc =
       Inr (acc @ filter (\<lambda>e. date_of_start (evt_start e) = Inr today) es)"
proof (induction es arbitrary: acc)
  case Nil
  show ?case by simp
next
  case (Cons e es)
  from Cons.prems obtain d where d: "date_of_start (evt_start e) = Inr d"
    by auto
  from Cons.prems have rest: "\<forall>e \<in> set es. \<exists>d. date_of_start (evt_start e) = Inr d"
    by simp
  show ?case
    using d Cons.IH [OF rest] by simp
qed

lemma today_loop_raises:
  "e \<in> set es \<Longrightarrow> date_of_start (evt_start e) = Inl err \<Longrightarrow>
     \<exists>err'. today_loop today es acc = Inl err'"
proof (induction es arbitrary: acc)
  case Nil
  then show ?case by simp
next
  case (Cons x xs)
  show ?case
  proof (cases "date_of_start (evt_start x)")
    case (Inl a)
    then show ?thesis by simp
  next
    case (Inr d)
    with Cons.prems have "e \<in> set xs"
      by auto
    from Cons.IH [OF this Cons.prems(2)] Inr show ?thesis
      by simp
  qed
qed

lemma today_loop_first_error:
  "\<forall>x \<in> set pre. \<exists>d. date_of_start (evt_start x) = Inr d \<Longrightarrow>
     date_of_start (evt_start e) = Inl err \<Longrightarrow>
     today_loop today (pre @ e # post) acc = Inl err"
proof (induction pre arbitrary: acc)
  case Nil
  then show ?case by simp
next
  case (Cons x xs)
  from Cons.prems(1) obtain d where d: "date_of_start (evt_start x) = Inr d"
    by auto
  from Cons.prems(1) have rest: "\<forall>x \<in> set xs. \<exists>d. date_of_start (evt_start x) = Inr d"
    by simp
  show ?case
    using d Cons.IH [OF rest Cons.prems(2)] by simp
qed

subsection \<open>The dates of the sample events\<close>

lemmas parser_defs =
  fromisoformat_def parse_isoformat_date_def parse_isoformat_time_def parse_hh_mm_ss_ff_def
  parse_digits_def digit_of_def tz_pos_def new_datetime_def days_in_month_def is_leap_def
  date_of_def py_replace_def Let_def

lemma sample_start_dates:
  "date_of_start (JStr ''2024-08-22T09:00:00Z'') = Inr \<lparr>year = 2024, month = 8, day = 22\<rparr>"
  "date_of_start (JStr ''2024-08-22T14:00:00Z'') = Inr \<lparr>year = 2024, month = 8, day = 22\<rparr>"
  "date_of_start (JStr ''2024-08-23T11:00:00Z'') = Inr \<lparr>year = 2024, month = 8, day = 23\<rparr>"
  by (simp_all add: parser_defs)

lemma not_a_date: "date_of_start (JStr ''tomorrow'') = Inl ValueError"
  by (simp add: parser_defs)

lemma sample_EVENTS_parse:
  "\<forall>e \<in> set sample_EVENTS. \<exists>d. date_of_start (evt_start e) = Inr d"
  by (simp add: sample_EVENTS_def sample_start_dates del: date_of_start.simps)

text \<open>
  The handler replaces every \<^verbatim>\<open>Z\<close> of the string, not only one at its end, and reads
  the date as the timestamp writes it: an offset is not applied.
\<close>

lemma every_Z_is_replaced:
  "py_replace (CHR ''Z'') ''+00:00'' ''2024-08-22Z10:00Z'' = ''2024-08-22+00:0010:00+00:00''"
  by (simp add: py_replace_def)

lemma offset_is_not_applied:
  "date_of_start (JStr ''2024-08-22T23:30:00-05:00'') =
     Inr \<lparr>year = 2024, month = 8, day = 22\<rparr>"
  by (simp add: parser_defs)

section \<open>What a 201 response of a create or send operation has appended\<close>

text \<open>
  C1, as the code has it: a 201 response of POST /users, POST /events and
  POST /teams/{id}/messages means exactly one record was appended: the collection is
  one longer, its last element is the returned record, and the records before it are
  the old collection. A 201 response of POST /emails/send leaves the Emails collection
  as it was.
\<close>

theorem create_appends_one:
  "(create_user data USERS = Inr ((body, 201), USERS') \<longrightarrow>
      length USERS' = length USERS + 1 \<and> body = user_json (last USERS')
      \<and> butlast USERS' = USERS)
   \<and> (create_event data EVENTS = Inr ((body, 201), EVENTS') \<longrightarrow>
      length EVENTS' = length EVENTS + 1 \<and> body = event_json (last EVENTS')
      \<and> butlast EVENTS' = EVENTS)
   \<and> (send_team_message utcnow team_id data TEAMS MESSAGES = Inr ((body, 201), MESSAGES') \<longrightarrow>
      length MESSAGES' = length MESSAGES + 1 \<and> body = message_json (last MESSAGES')
      \<and> butlast MESSAGES' = MESSAGES)
   \<and> (send_email utcnow data EMAILS = Inr ((body, 201), EMAILS') \<longrightarrow> EMAILS' = EMAILS)"
proof -
  have users: "length USERS' = length USERS + 1 \<and> body = user_json (last USERS')
      \<and> butlast USERS' = USERS"
    if "create_user data USERS = Inr ((body, 201), USERS')"
    using create_user_created [OF that] by auto
  have events: "length EVENTS' = length EVENTS + 1 \<and> body = event_json (last EVENTS')
      \<and> butlast EVENTS' = EVENTS"
    if "create_event data EVENTS = Inr ((body, 201), EVENTS')"
    using create_event_created [OF that] by auto
  have messages: "length MESSAGES' = length MESSAGES + 1 \<and> body = message_json (last MESSAGES')
      \<and> butlast MESSAGES' = MESSAGES"
    if "send_team_message utcnow team_id data TEAMS MESSAGES = Inr ((body, 201), MESSAGES')"
    using send_team_message_created [OF that] by auto
  have emails: "EMAILS' = EMAILS"
    if "send_email utcnow data EMAILS = Inr ((body, 201), EMAILS')"
    using send_email_same [OF that] .
  show ?thesis
    using users events messages emails by blast
qed

theorem create_appends_one_witness:
  "(\<exists>body USERS'. create_user (JObj [(''name'', JStr ''Ann'')]) sample_USERS =
        Inr ((body, 201), USERS')
      \<and> length USERS' = length sample_USERS + 1 \<and> body = user_json (last USERS')
      \<and> butlast USERS' = sample_USERS)
   \<and> (\<exists>body EVENTS'. create_event
          (JObj [(''title'', JStr ''Retro''), (''start'', JStr ''2024-09-02T10:00:00Z'')])
          sample_EVENTS = Inr ((body, 201), EVENTS')
      \<and> length EVENTS' = length sample_EVENTS + 1 \<and> body = event_json (last EVENTS')
      \<and> butlast EVENTS' = sample_EVENTS)
   \<and> (\<exists>body MESSAGES'. send_team_message ''2024-09-02T10:00:00'' 2
          (JObj [(''message'', JStr ''hello'')]) sample_TEAMS sample_MESSAGES =
        Inr ((body, 201), MESSAGES')
      \<and> length MESSAGES' = length sample_MESSAGES + 1 \<and> body = message_json (last MESSAGES')
      \<and> butlast MESSAGES' = sample_MESSAGES)
   \<and> (\<exists>body EMAILS'. send_email ''2024-09-02T10:00:00''
          (JObj [(''to'', JStr ''ann@company.com''), (''subject'', JStr ''Hi'')])
          sample_EMAILS = Inr ((body, 201), EMAILS')
      \<and> EMAILS' = sample_EMAILS)"
proof -
  obtain ub us where u: "create_user (JObj [(''name'', JStr ''Ann'')]) sample_USERS =
      Inr ((ub, 201), us)"
    by (simp add: create_user_def sample_USERS_def Let_def)
  obtain eb es where e: "create_event
      (JObj [(''title'', JStr ''Retro''), (''start'', JStr ''2024-09-02T10:00:00Z'')])
      sample_EVENTS = Inr ((eb, 201), es)"
    by (simp add: create_event_def sample_EVENTS_def Let_def)
  obtain mb ms where m: "send_team_message ''2024-09-02T10:00:00'' 2
      (JObj [(''message'', JStr ''hello'')]) sample_TEAMS sample_MESSAGES = Inr ((mb, 201), ms)"
    by (simp add: send_team_message_def sample_MESSAGES_def sample_TEAMS_def Let_def)
  obtain sb ss where s: "send_email ''2024-09-02T10:00:00''
      (JObj [(''to'', JStr ''ann@company.com''), (''subject'', JStr ''Hi'')])
      sample_EMAILS = Inr ((sb, 201), ss)"
    by (simp add: send_email_def sample_EMAILS_def Let_def)
  note u' = create_appends_one [THEN conjunct1, rule_format, OF u]
  note e' = create_appends_one [THEN conjunct2, THEN conjunct1, rule_format, OF e]
  note m' = create_appends_one [THEN conjunct2, THEN conjunct2, THEN conjunct1, rule_format, OF m]
  note s' = create_appends_one [THEN conjunct2, THEN conjunct2, THEN conjunct2, rule_format, OF s]
  from u u' e e' m m' s s' show ?thesis
    by blast
qed

text \<open>
  The claim C1 as stated fails for POST /emails/send: on the sample data a valid request
  is answered 201 and the Emails collection is the one before the call, of length 3.
\<close>

theorem send_email_appends_nothing:
  "send_email ''2024-09-02T10:00:00''
      (JObj [(''to'', JStr ''ann@company.com''), (''subject'', JStr ''Hi'')]) sample_EMAILS =
     Inr ((JObj [(''message'', JStr ''Email sent successfully''),
                 (''email'', JObj [(''id'', JInt 4), (''from'', JStr ''user@company.com''),
                    (''to'', JStr ''ann@company.com''), (''subject'', JStr ''Hi''),
                    (''body'', JStr ''''), (''sent'', JStr ''2024-09-02T10:00:00Z''),
                    (''status'', JStr ''sent'')])], 201),
          sample_EMAILS)
   \<and> length sample_EMAILS = 3"
  by (simp add: send_email_def sample_EMAILS_def Let_def)

section \<open>The events of today\<close>

text \<open>
  C2, as the code has it: when the \<^verbatim>\<open>start\<close> of every stored event is a string that
  parses (after every \<^verbatim>\<open>Z\<close> in it is replaced by \<^verbatim>\<open>+00:00\<close>), GET /events/today
  returns, in their stored order, exactly the events whose parsed date (year, month and
  day as written) is the current date, with their number as \<^verbatim>\<open>count\<close> and the current
  date as \<^verbatim>\<open>date\<close>; on the sample data and a current date other than 2024-08-22 and
  2024-08-23 the list is empty and the count 0.
\<close>

theorem today_events:
  "((\<forall>e \<in> set EVENTS. \<exists>d. date_of_start (evt_start e) = Inr d) \<longrightarrow>
      get_today_events today EVENTS =
        Inr ((JObj [(''events'', JList (map event_json
                       (filter (\<lambda>e. date_of_start (evt_start e) = Inr today) EVENTS))),
                    (''date'', JStr (date_isoformat today)),
                    (''count'', JInt (int (length
                       (filter (\<lambda>e. date_of_start (evt_start e) = Inr today) EVENTS))))],
              200), EVENTS))
   \<and> (today \<noteq> \<lparr>year = 2024, month = 8, day = 22\<rparr>
        \<and> today \<noteq> \<lparr>year = 2024, month = 8, day = 23\<rparr> \<longrightarrow>
      get_today_events today sample_EVENTS =
        Inr ((JObj [(''events'', JList []), (''date'', JStr (date_isoformat today)),
                    (''count'', JInt 0)], 200), sample_EVENTS))"
proof -
  have general: "get_today_events today EVENTS =
        Inr ((JObj [(''events'', JList (map event_json
                       (filter (\<lambda>e. date_of_start (evt_start e) = Inr today) EVENTS))),
                    (''date'', JStr (date_isoformat today)),
                    (''count'', JInt (int (length
                       (filter (\<lambda>e. date_of_start (evt_start e) = Inr today) EVENTS))))],
              200), EVENTS)"
    if "\<forall>e \<in> set EVENTS. \<exists>d. date_of_start (evt_start e) = Inr d" for EVENTS
    using today_loop_all_parse [OF that, of today "[]"]
    by (simp add: get_today_events_def)
  have none: "filter (\<lambda>e. date_of_start (evt_start e) = Inr today) sample_EVENTS = []"
    if "today \<noteq> \<lparr>year = 2024, month = 8, day = 22\<rparr>"
      "today \<noteq> \<lparr>year = 2024, month = 8, day = 23\<rparr>"
    using that by (auto simp: sample_EVENTS_def sample_start_dates simp del: date_of_start.simps)
  have sample: "get_today_events today sample_EVENTS =
        Inr ((JObj [(''events'', JList []), (''date'', JStr (date_isoformat today)),
                    (''count'', JInt 0)], 200), sample_EVENTS)"
    if "today \<noteq> \<lparr>year = 2024, month = 8, day = 22\<rparr>"
      "today \<noteq> \<lparr>year = 2024, month = 8, day = 23\<rparr>"
    using general [OF sample_EVENTS_parse] none [OF that] by simp
  show ?thesis
    using general sample by blast
qed

theorem today_events_witness:
  "get_today_events \<lparr>year = 2024, month = 8, day = 22\<rparr> sample_EVENTS =
     Inr ((JObj [(''events'', JList (map event_json (take 2 sample_EVENTS))),
                 (''date'', JStr ''2024-08-22''), (''count'', JInt 2)], 200), sample_EVENTS)
   \<and> get_today_events \<lparr>year = 2026, month = 11, day = 4\<rparr> sample_EVENTS =
     Inr ((JObj [(''events'', JList []), (''date'', JStr ''2026-11-04''),
                 (''count'', JInt 0)], 200), sample_EVENTS)"
proof -
  have f: "filter (\<lambda>e. date_of_start (evt_start e) = Inr \<lparr>year = 2024, month = 8, day = 22\<rparr>)
      sample_EVENTS = take 2 sample_EVENTS"
    by (simp add: sample_EVENTS_def sample_start_dates del: date_of_start.simps)
  have l: "length sample_EVENTS = 3"
    by (simp add: sample_EVENTS_def)
  have i1: "date_isoformat \<lparr>year = 2024, month = 8, day = 22\<rparr> = ''2024-08-22''"
    by (simp add: date_isoformat_def digit_char_def)
  have i2: "date_isoformat \<lparr>year = 2026, month = 11, day = 4\<rparr> = ''2026-11-04''"
    by (simp add: date_isoformat_def digit_char_def)
  have n: "\<lparr>year = 2026, month = 11, day = 4\<rparr> \<noteq> \<lparr>year = 2024, month = 8, day = 22\<rparr>
      \<and> \<lparr>year = 2026, month = 11, day = (4::nat)\<rparr> \<noteq> \<lparr>year = 2024, month = 8, day = 23\<rparr>"
    by simp
  note a = today_events [where today = "\<lparr>year = 2024, month = 8, day = 22\<rparr>"
      and EVENTS = sample_EVENTS, THEN conjunct1, THEN mp, OF sample_EVENTS_parse]
  note b = today_events [where today = "\<lparr>year = 2026, month = 11, day = 4\<rparr>",
      THEN conjunct2, THEN mp, OF n]
  from a b show ?thesis
    by (simp add: f l i1 i2)
qed

text \<open>
  The claim C2 as stated fails where a stored \<^verbatim>\<open>start\<close> does not parse: POST /events
  stores the body \<^verbatim>\<open>{"title": "Lunch", "start": "tomorrow"}\<close> with status 201, and
  GET /events/today then raises ValueError instead of returning a list.
\<close>

theorem today_events_raises:
  "create_event (JObj [(''title'', JStr ''Lunch''), (''start'', JStr ''tomorrow'')])
      sample_EVENTS =
     Inr ((event_json \<lparr>evt_id = 4, evt_title = JStr ''Lunch'', evt_start = JStr ''tomorrow'',
             evt_end = JStr ''tomorrow'', evt_attendees = JList []\<rparr>, 201),
          sample_EVENTS @ [\<lparr>evt_id = 4, evt_title = JStr ''Lunch'',
             evt_start = JStr ''tomorrow'', evt_end = JStr ''tomorrow'',
             evt_attendees = JList []\<rparr>])
   \<and> get_today_events \<lparr>year = 2024, month = 8, day = 22\<rparr>
       (sample_EVENTS @ [\<lparr>evt_id = 4, evt_title = JStr ''Lunch'',
          evt_start = JStr ''tomorrow'', evt_end = JStr ''tomorrow'',
          evt_attendees = JList []\<rparr>]) = Inl ValueError"
proof -
  have "today_loop \<lparr>year = 2024, month = 8, day = 22\<rparr>
      (sample_EVENTS @ \<lparr>evt_id = 4, evt_title = JStr ''Lunch'',
          evt_start = JStr ''tomorrow'', evt_end = JStr ''tomorrow'',
          evt_attendees = JList []\<rparr> # []) [] = Inl ValueError"
    by (rule today_loop_first_error [OF sample_EVENTS_parse]) (simp add: not_a_date del: date_of_start.simps)
  then show ?thesis
    by (simp add: get_today_events_def create_event_def sample_EVENTS_def Let_def)
qed

section \<open>Unique ids, assigned as the maximum plus one\<close>

text \<open>
  C3: in every collection reachable from the sample data by the creating handlers the ids
  are pairwise different; a creating handler that answers 201 has given the new record
  the id \<open>max(existing ids) + 1\<close> (POST /emails/send gives it to the email it returns);
  on an empty collection a request that passes the checks raises ValueError, the
  \<^verbatim>\<open>max\<close> of an empty list.
\<close>

theorem ids_unique_and_next:
  "(reachable_USERS USERS \<longrightarrow> distinct (map usr_id USERS))
   \<and> (reachable_EVENTS EVENTS \<longrightarrow> distinct (map evt_id EVENTS))
   \<and> (reachable_EMAILS EMAILS \<longrightarrow> distinct (map eml_id EMAILS))
   \<and> (reachable_MESSAGES MESSAGES \<longrightarrow> distinct (map msg_id MESSAGES))
   \<and> distinct (map tm_id sample_TEAMS) \<and> distinct (map mtg_id sample_MEETINGS)
   \<and> distinct (map fil_id sample_FILES) \<and> distinct (map fld_id sample_FOLDERS)
   \<and> (create_user data USERS = Inr ((body, 201), USERS') \<longrightarrow>
        (\<exists>u. body = user_json u \<and> USERS' = USERS @ [u]
           \<and> usr_id u = Max (set (map usr_id USERS)) + 1))
   \<and> (create_event data EVENTS = Inr ((body, 201), EVENTS') \<longrightarrow>
        (\<exists>e. body = event_json e \<and> EVENTS' = EVENTS @ [e]
           \<and> evt_id e = Max (set (map evt_id EVENTS)) + 1))
   \<and> (send_team_message utcnow team_id data TEAMS MESSAGES = Inr ((body, 201), MESSAGES') \<longrightarrow>
        (\<exists>m. body = message_json m \<and> MESSAGES' = MESSAGES @ [m]
           \<and> msg_id m = Max (set (map msg_id MESSAGES)) + 1))
   \<and> (send_email utcnow data EMAILS = Inr ((body, 201), EMAILS') \<longrightarrow>
        (\<exists>fields. body = JObj [(''message'', JStr ''Email sent successfully''),
           (''email'', JObj ((''id'', JInt (Max (set (map eml_id EMAILS)) + 1)) # fields))]))
   \<and> (map_of kv ''name'' \<noteq> None \<longrightarrow> create_user (JObj kv) [] = Inl ValueError)
   \<and> (map_of kv ''title'' \<noteq> None \<and> map_of kv ''start'' \<noteq> None \<longrightarrow>
        create_event (JObj kv) [] = Inl ValueError)
   \<and> (map_of kv ''message'' \<noteq> None \<and> find (\<lambda>t. tm_id t = team_id) TEAMS \<noteq> None \<longrightarrow>
        send_team_message utcnow team_id (JObj kv) TEAMS [] = Inl ValueError)
   \<and> (map_of kv ''to'' \<noteq> None \<and> map_of kv ''subject'' \<noteq> None \<longrightarrow>
        send_email utcnow (JObj kv) [] = Inl ValueError)"
proof -
  have c1: "reachable_USERS USERS \<longrightarrow> distinct (map usr_id USERS)"
    by (simp add: reachable_USERS_distinct)
  have c2: "reachable_EVENTS EVENTS \<longrightarrow> distinct (map evt_id EVENTS)"
    by (simp add: reachable_EVENTS_distinct)
  have c3: "reachable_EMAILS EMAILS \<longrightarrow> distinct (map eml_id EMAILS)"
    by (simp add: reachable_EMAILS_distinct)
  have c4: "reachable_MESSAGES MESSAGES \<longrightarrow> distinct (map msg_id MESSAGES)"
    by (simp add: reachable_MESSAGES_distinct)
  have c5: "distinct (map tm_id sample_TEAMS)"
    by (simp add: sample_TEAMS_def)
  have c6: "distinct (map mtg_id sample_MEETINGS)"
    by (simp add: sample_MEETINGS_def)
  have c7: "distinct (map fil_id sample_FILES)"
    by (simp add: sample_FILES_def)
  have c8: "distinct (map fld_id sample_FOLDERS)"
    by (simp add: sample_FOLDERS_def)
  have c9: "create_user data USERS = Inr ((body, 201), USERS') \<longrightarrow>
      (\<exists>u. body = user_json u \<and> USERS' = USERS @ [u]
         \<and> usr_id u = Max (set (map usr_id USERS)) + 1)"
  proof
    assume "create_user data USERS = Inr ((body, 201), USERS')"
    from create_user_created [OF this] show "\<exists>u. body = user_json u \<and> USERS' = USERS @ [u]
         \<and> usr_id u = Max (set (map usr_id USERS)) + 1"
      by auto
  qed
  have c10: "create_event data EVENTS = Inr ((body, 201), EVENTS') \<longrightarrow>
      (\<exists>e. body = event_json e \<and> EVENTS' = EVENTS @ [e]
         \<and> evt_id e = Max (set (map evt_id EVENTS)) + 1)"
  proof
    assume "create_event data EVENTS = Inr ((body, 201), EVENTS')"
    from create_event_created [OF this] show "\<exists>e. body = event_json e \<and> EVENTS' = EVENTS @ [e]
         \<and> evt_id e = Max (set (map evt_id EVENTS)) + 1"
      by auto
  qed
  have c11: "send_team_message utcnow team_id data TEAMS MESSAGES =
        Inr ((body, 201), MESSAGES') \<longrightarrow>
      (\<exists>m. body = message_json m \<and> MESSAGES' = MESSAGES @ [m]
         \<and> msg_id m = Max (set (map msg_id MESSAGES)) + 1)"
  proof
    assume "send_team_message utcnow team_id data TEAMS MESSAGES = Inr ((body, 201), MESSAGES')"
    from send_team_message_created [OF this]
    show "\<exists>m. body = message_json m \<and> MESSAGES' = MESSAGES @ [m]
         \<and> msg_id m = Max (set (map msg_id MESSAGES)) + 1"
      by auto
  qed
  have c12: "send_email utcnow data EMAILS = Inr ((body, 201), EMAILS') \<longrightarrow>
      (\<exists>fields. body = JObj [(''message'', JStr ''Email sent successfully''),
         (''email'', JObj ((''id'', JInt (Max (set (map eml_id EMAILS)) + 1)) # fields))])"
  proof
    assume "send_email utcnow data EMAILS = Inr ((body, 201), EMAILS')"
    from send_email_created [OF this]
    show "\<exists>fields. body = JObj [(''message'', JStr ''Email sent successfully''),
         (''email'', JObj ((''id'', JInt (Max (set (map eml_id EMAILS)) + 1)) # fields))]"
      by auto
  qed
  have c13: "map_of kv ''name'' \<noteq> None \<longrightarrow> create_user (JObj kv) [] = Inl ValueError"
    by (simp add: create_user_empty)
  have c14: "map_of kv ''title'' \<noteq> None \<and> map_of kv ''start'' \<noteq> None \<longrightarrow>
      create_event (JObj kv) [] = Inl ValueError"
    by (simp add: create_event_empty)
  have c15: "map_of kv ''message'' \<noteq> None \<and> find (\<lambda>t. tm_id t = team_id) TEAMS \<noteq> None \<longrightarrow>
      send_team_message utcnow team_id (JObj kv) TEAMS [] = Inl ValueError"
    by (simp add: send_team_message_empty)
  have c16: "map_of kv ''to'' \<noteq> None \<and> map_of kv ''subject'' \<noteq> None \<longrightarrow>
      send_email utcnow (JObj kv) [] = Inl ValueError"
    by (simp add: send_email_empty)
  show ?thesis
    by (intro conjI) (rule c1 c2 c3 c4 c5 c6 c7 c8 c9 c10 c11 c12 c13 c14 c15 c16)+
qed

theorem ids_unique_and_next_witness:
  "(\<exists>body S. create_user (JObj [(''name'', JStr ''Ann'')]) sample_USERS = Inr ((body, 201), S)
      \<and> reachable_USERS S \<and> distinct (map usr_id S)
      \<and> (\<exists>u. body = user_json u \<and> S = sample_USERS @ [u]
          \<and> usr_id u = Max (set (map usr_id sample_USERS)) + 1))
   \<and> (\<exists>body S. create_event (JObj [(''title'', JStr ''Retro''), (''start'', JStr ''2024-09-02T10:00:00Z'')])
        sample_EVENTS = Inr ((body, 201), S)
      \<and> reachable_EVENTS S \<and> distinct (map evt_id S)
      \<and> (\<exists>e. body = event_json e \<and> S = sample_EVENTS @ [e]
          \<and> evt_id e = Max (set (map evt_id sample_EVENTS)) + 1))
   \<and> (\<exists>body S. send_email ''2024-09-02T10:00:00''
        (JObj [(''to'', JStr ''ann@company.com''), (''subject'', JStr ''Hi'')]) sample_EMAILS = Inr ((body, 201), S)
      \<and> reachable_EMAILS S \<and> distinct (map eml_id S)
      \<and> (\<exists>fields. body = JObj [(''message'', JStr ''Email sent successfully''),
          (''email'', JObj ((''id'', JInt (Max (set (map eml_id sample_EMAILS)) + 1)) # fields))]))
   \<and> (\<exists>body S. send_team_message ''2024-09-02T10:00:00'' 2 (JObj [(''message'', JStr ''hello'')])
        sample_TEAMS sample_MESSAGES = Inr ((body, 201), S)
      \<and> reachable_MESSAGES S \<and> distinct (map msg_id S)
      \<and> (\<exists>m. body = message_json m \<and> S = sample_MESSAGES @ [m]
          \<and> msg_id m = Max (set (map msg_id sample_MESSAGES)) + 1))
   \<and> create_user (JObj [(''name'', JStr ''Ann'')]) [] = Inl ValueError
   \<and> create_event (JObj [(''title'', JStr ''Retro''), (''start'', JStr ''2024-09-02T10:00:00Z'')]) [] =
       Inl ValueError
   \<and> send_team_message ''2024-09-02T10:00:00'' 2 (JObj [(''message'', JStr ''hello'')]) sample_TEAMS [] =
       Inl ValueError
   \<and> send_email ''2024-09-02T10:00:00''
       (JObj [(''to'', JStr ''ann@company.com''), (''subject'', JStr ''Hi'')]) [] = Inl ValueError"
proof -
  obtain ub us where uh: "create_user (JObj [(''name'', JStr ''Ann'')]) sample_USERS = Inr ((ub, 201), us)"
    by (simp add: create_user_def sample_USERS_def Let_def)
  have ur: "reachable_USERS us"
    using reachable_USERS.post [OF reachable_USERS.start uh] .
  note ud = ids_unique_and_next [THEN conjunct1, rule_format, OF ur]
  note un = ids_unique_and_next [THEN conjunct2, THEN conjunct2, THEN conjunct2, THEN conjunct2, THEN conjunct2, THEN conjunct2, THEN conjunct2, THEN conjunct2, THEN conjunct1, rule_format, OF uh]
  obtain eb es where eh: "create_event (JObj [(''title'', JStr ''Retro''), (''start'', JStr ''2024-09-02T10:00:00Z'')]) sample_EVENTS = Inr ((eb, 201), es)"
    by (simp add: create_event_def sample_EVENTS_def Let_def)
  have er: "reachable_EVENTS es"
    using reachable_EVENTS.post [OF reachable_EVENTS.start eh] .
  note ed = ids_unique_and_next [THEN conjunct2, THEN conjunct1, rule_format, OF er]
  note en = ids_unique_and_next [THEN conjunct2, THEN conjunct2, THEN conjunct2, THEN conjunct2, THEN conjunct2, THEN conjunct2, THEN conjunct2, THEN conjunct2, THEN conjunct2, THEN conjunct1, rule_format, OF eh]
  obtain sb ss where sh: "send_email ''2024-09-02T10:00:00'' (JObj [(''to'', JStr ''ann@company.com''), (''subject'', JStr ''Hi'')]) sample_EMAILS = Inr ((sb, 201), ss)"
    by (simp add: send_email_def sample_EMAILS_def Let_def)
  have sr: "reachable_EMAILS ss"
    using reachable_EMAILS.post [OF reachable_EMAILS.start sh] .
  note sd = ids_unique_and_next [THEN conjunct2, THEN conjunct2, THEN conjunct1, rule_format, OF sr]
  note sn = ids_unique_and_next [THEN conjunct2, THEN conjunct2, THEN conjunct2, THEN conjunct2, THEN conjunct2, THEN conjunct2, THEN conjunct2, THEN conjunct2, THEN conjunct2, THEN conjunct2, THEN conjunct2, THEN conjunct1, rule_format, OF sh]
  obtain mb ms where mh: "send_team_message ''2024-09-02T10:00:00'' 2 (JObj [(''message'', JStr ''hello'')]) sample_TEAMS sample_MESSAGES = Inr ((mb, 201), ms)"
    by (simp add: send_team_message_def sample_MESSAGES_def sample_TEAMS_def Let_def)
  have mr: "reachable_MESSAGES ms"
    using reachable_MESSAGES.post [OF reachable_MESSAGES.start mh] .
  note md = ids_unique_and_next [THEN conjunct2, THEN conjunct2, THEN conjunct2, THEN conjunct1, rule_format, OF mr]
  note mn = ids_unique_and_next [THEN conjunct2, THEN conjunct2, THEN conjunct2, THEN conjunct2, THEN conjunct2, THEN conjunct2, THEN conjunct2, THEN conjunct2, THEN conjunct2, THEN conjunct2, THEN conjunct1, rule_format, OF mh]
  have k: "map_of [(''name'', JStr ''Ann'')] ''name'' \<noteq> None"
    "map_of [(''title'', JStr ''Retro''), (''start'', JStr ''2024-09-02T10:00:00Z'')] ''title'' \<noteq> None
      \<and> map_of [(''title'', JStr ''Retro''), (''start'', JStr ''2024-09-02T10:00:00Z'')] ''start'' \<noteq> None"
    "map_of [(''message'', JStr ''hello'')] ''message'' \<noteq> None
      \<and> find (\<lambda>t. tm_id t = 2) sample_TEAMS \<noteq> None"
    "map_of [(''to'', JStr ''ann@company.com''), (''subject'', JStr ''Hi'')] ''to'' \<noteq> None
      \<and> map_of [(''to'', JStr ''ann@company.com''), (''subject'', JStr ''Hi'')] ''subject'' \<noteq> None"
    by (simp_all add: sample_TEAMS_def)
  note ue = ids_unique_and_next [THEN conjunct2, THEN conjunct2, THEN conjunct2, THEN conjunct2, THEN conjunct2, THEN conjunct2, THEN conjunct2, THEN conjunct2, THEN conjunct2, THEN conjunct2, THEN conjunct2, THEN conjunct2, THEN conjunct1, rule_format, OF k(1)]
  note ee = ids_unique_and_next [THEN conjunct2, THEN conjunct2, THEN conjunct2, THEN conjunct2, THEN conjunct2, THEN conjunct2, THEN conjunct2, THEN conjunct2, THEN conjunct2, THEN conjunct2, THEN conjunct2, THEN conjunct2, THEN conjunct2, THEN conjunct1, rule_format, OF k(2)]
  note me = ids_unique_and_next [THEN conjunct2, THEN conjunct2, THEN conjunct2, THEN conjunct2, THEN conjunct2, THEN conjunct2, THEN conjunct2, THEN conjunct2, THEN conjunct2, THEN conjunct2, THEN conjunct2, THEN conjunct2, THEN conjunct2, THEN conjunct2, THEN conjunct1, rule_format, OF k(3), of "''2024-09-02T10:00:00''"]
  note se = ids_unique_and_next [THEN conjunct2, THEN conjunct2, THEN conjunct2, THEN conjunct2, THEN conjunct2, THEN conjunct2, THEN conjunct2, THEN conjunct2, THEN conjunct2, THEN conjunct2, THEN conjunct2, THEN conjunct2, THEN conjunct2, THEN conjunct2, THEN conjunct2, rule_format, OF k(4), of "''2024-09-02T10:00:00''"]
  from uh ur ud un eh er ed en sh sr sd sn mh mr md mn ue ee me se show ?thesis
    by blast
qed

section \<open>Repeated requests\<close>

text \<open>
  C4, as the code has it: a list endpoint leaves its collection as it was, so the same
  GET sent again returns the same payload; the same valid create request sent twice to
  POST /users, POST /events or POST /teams/{id}/messages is answered 201 both times and
  appends two different records, the second with the larger id; the same valid request
  sent twice to POST /emails/send is answered 201 both times with the same id, and the
  Emails collection stays as it was.
\<close>

theorem repeated_requests:
  "(get_users USERS = Inr (r, USERS') \<longrightarrow>
      USERS' = USERS \<and> get_users USERS' = Inr (r, USERS'))
   \<and> (get_events EVENTS = Inr (r, EVENTS') \<longrightarrow>
      EVENTS' = EVENTS \<and> get_events EVENTS' = Inr (r, EVENTS'))
   \<and> (get_today_events today EVENTS = Inr (r, EVENTS') \<longrightarrow>
      EVENTS' = EVENTS \<and> get_today_events today EVENTS' = Inr (r, EVENTS'))
   \<and> (get_emails EMAILS = Inr (r, EMAILS') \<longrightarrow>
      EMAILS' = EMAILS \<and> get_emails EMAILS' = Inr (r, EMAILS'))
   \<and> (get_unread_emails EMAILS = Inr (r, EMAILS') \<longrightarrow>
      EMAILS' = EMAILS \<and> get_unread_emails EMAILS' = Inr (r, EMAILS'))
   \<and> (get_important_emails EMAILS = Inr (r, EMAILS') \<longrightarrow>
      EMAILS' = EMAILS \<and> get_important_emails EMAILS' = Inr (r, EMAILS'))
   \<and> (get_teams TEAMS = Inr (r, TEAMS') \<longrightarrow>
      TEAMS' = TEAMS \<and> get_teams TEAMS' = Inr (r, TEAMS'))
   \<and> (get_team_messages team_id MESSAGES = Inr (r, MESSAGES') \<longrightarrow>
      MESSAGES' = MESSAGES \<and> get_team_messages team_id MESSAGES' = Inr (r, MESSAGES'))
   \<and> (get_meetings MEETINGS = Inr (r, MEETINGS') \<longrightarrow>
      MEETINGS' = MEETINGS \<and> get_meetings MEETINGS' = Inr (r, MEETINGS'))
   \<and> (get_files FILES = Inr (r, FILES') \<longrightarrow>
      FILES' = FILES \<and> get_files FILES' = Inr (r, FILES'))
   \<and> (get_shared_files FILES = Inr (r, FILES') \<longrightarrow>
      FILES' = FILES \<and> get_shared_files FILES' = Inr (r, FILES'))
   \<and> (get_folders FOLDERS = Inr (r, FOLDERS') \<longrightarrow>
      FOLDERS' = FOLDERS \<and> get_folders FOLDERS' = Inr (r, FOLDERS'))
   \<and> (create_user data USERS = Inr ((body, 201), USERS1) \<longrightarrow>
      (\<exists>u1 u2. body = user_json u1 \<and> USERS1 = USERS @ [u1]
         \<and> create_user data USERS1 = Inr ((user_json u2, 201), USERS @ [u1, u2])
         \<and> usr_id u1 < usr_id u2 \<and> u1 \<noteq> u2))
   \<and> (create_event data EVENTS = Inr ((body, 201), EVENTS1) \<longrightarrow>
      (\<exists>e1 e2. body = event_json e1 \<and> EVENTS1 = EVENTS @ [e1]
         \<and> create_event data EVENTS1 = Inr ((event_json e2, 201), EVENTS @ [e1, e2])
         \<and> evt_id e1 < evt_id e2 \<and> e1 \<noteq> e2))
   \<and> (send_team_message utcnow team_id data TEAMS MESSAGES = Inr ((body, 201), MESSAGES1) \<longrightarrow>
      (\<exists>m1 m2. body = message_json m1 \<and> MESSAGES1 = MESSAGES @ [m1]
         \<and> send_team_message utcnow2 team_id data TEAMS MESSAGES1 =
             Inr ((message_json m2, 201), MESSAGES @ [m1, m2])
         \<and> msg_id m1 < msg_id m2 \<and> m1 \<noteq> m2))
   \<and> (send_email utcnow data EMAILS = Inr ((body, 201), EMAILS1) \<longrightarrow>
      (\<exists>fields1 fields2. EMAILS1 = EMAILS
         \<and> body = JObj [(''message'', JStr ''Email sent successfully''),
              (''email'', JObj ((''id'', JInt (Max (set (map eml_id EMAILS)) + 1)) # fields1))]
         \<and> send_email utcnow2 data EMAILS1 =
             Inr ((JObj [(''message'', JStr ''Email sent successfully''),
               (''email'', JObj ((''id'', JInt (Max (set (map eml_id EMAILS)) + 1)) # fields2))],
               201), EMAILS)))"
proof -
  have g1: "get_users USERS = Inr (r, USERS') \<longrightarrow>
      USERS' = USERS \<and> get_users USERS' = Inr (r, USERS')"
    by (auto simp: get_users_def Let_def)
  have g2: "get_events EVENTS = Inr (r, EVENTS') \<longrightarrow>
      EVENTS' = EVENTS \<and> get_events EVENTS' = Inr (r, EVENTS')"
    by (auto simp: get_events_def Let_def)
  have g3: "get_today_events today EVENTS = Inr (r, EVENTS') \<longrightarrow>
      EVENTS' = EVENTS \<and> get_today_events today EVENTS' = Inr (r, EVENTS')"
    by (auto simp: get_today_events_def split: sum.splits)
  have g4: "get_emails EMAILS = Inr (r, EMAILS') \<longrightarrow>
      EMAILS' = EMAILS \<and> get_emails EMAILS' = Inr (r, EMAILS')"
    by (auto simp: get_emails_def Let_def)
  have g5: "get_unread_emails EMAILS = Inr (r, EMAILS') \<longrightarrow>
      EMAILS' = EMAILS \<and> get_unread_emails EMAILS' = Inr (r, EMAILS')"
    by (auto simp: get_unread_emails_def Let_def)
  have g6: "get_important_emails EMAILS = Inr (r, EMAILS') \<longrightarrow>
      EMAILS' = EMAILS \<and> get_important_emails EMAILS' = Inr (r, EMAILS')"
    by (auto simp: get_important_emails_def Let_def)
  have g7: "get_teams TEAMS = Inr (r, TEAMS') \<longrightarrow>
      TEAMS' = TEAMS \<and> get_teams TEAMS' = Inr (r, TEAMS')"
    by (auto simp: get_teams_def Let_def)
  have g8: "get_team_messages team_id MESSAGES = Inr (r, MESSAGES') \<longrightarrow>
      MESSAGES' = MESSAGES \<and> get_team_messages team_id MESSAGES' = Inr (r, MESSAGES')"
    by (auto simp: get_team_messages_def Let_def)
  have g9: "get_meetings MEETINGS = Inr (r, MEETINGS') \<longrightarrow>
      MEETINGS' = MEETINGS \<and> get_meetings MEETINGS' = Inr (r, MEETINGS')"
    by (auto simp: get_meetings_def Let_def)
  have g10: "get_files FILES = Inr (r, FILES') \<longrightarrow>
      FILES' = FILES \<and> get_files FILES' = Inr (r, FILES')"
    by (auto simp: get_files_def Let_def)
  have g11: "get_shared_files FILES = Inr (r, FILES') \<longrightarrow>
      FILES' = FILES \<and> get_shared_files FILES' = Inr (r, FILES')"
    by (auto simp: get_shared_files_def Let_def)
  have g12: "get_folders FOLDERS = Inr (r, FOLDERS') \<longrightarrow>
      FOLDERS' = FOLDERS \<and> get_folders FOLDERS' = Inr (r, FOLDERS')"
    by (auto simp: get_folders_def Let_def)
  have p1: "create_user data USERS = Inr ((body, 201), USERS1) \<longrightarrow>
      (\<exists>u1 u2. body = user_json u1 \<and> USERS1 = USERS @ [u1]
         \<and> create_user data USERS1 = Inr ((user_json u2, 201), USERS @ [u1, u2])
         \<and> usr_id u1 < usr_id u2 \<and> u1 \<noteq> u2)"
  proof
    assume "create_user data USERS = Inr ((body, 201), USERS1)"
    from create_user_twice [OF this]
    show "\<exists>u1 u2. body = user_json u1 \<and> USERS1 = USERS @ [u1]
         \<and> create_user data USERS1 = Inr ((user_json u2, 201), USERS @ [u1, u2])
         \<and> usr_id u1 < usr_id u2 \<and> u1 \<noteq> u2"
      by force
  qed
  have p2: "create_event data EVENTS = Inr ((body, 201), EVENTS1) \<longrightarrow>
      (\<exists>e1 e2. body = event_json e1 \<and> EVENTS1 = EVENTS @ [e1]
         \<and> create_event data EVENTS1 = Inr ((event_json e2, 201), EVENTS @ [e1, e2])
         \<and> evt_id e1 < evt_id e2 \<and> e1 \<noteq> e2)"
  proof
    assume "create_event data EVENTS = Inr ((body, 201), EVENTS1)"
    from create_event_twice [OF this]
    show "\<exists>e1 e2. body = event_json e1 \<and> EVENTS1 = EVENTS @ [e1]
         \<and> create_event data EVENTS1 = Inr ((event_json e2, 201), EVENTS @ [e1, e2])
         \<and> evt_id e1 < evt_id e2 \<and> e1 \<noteq> e2"
      by force
  qed
  have p3: "send_team_message utcnow team_id data TEAMS MESSAGES = Inr ((body, 201), MESSAGES1) \<longrightarrow>
      (\<exists>m1 m2. body = message_json m1 \<and> MESSAGES1 = MESSAGES @ [m1]
         \<and> send_team_message utcnow2 team_id data TEAMS MESSAGES1 =
             Inr ((message_json m2, 201), MESSAGES @ [m1, m2])
         \<and> msg_id m1 < msg_id m2 \<and> m1 \<noteq> m2)"
  proof
    assume "send_team_message utcnow team_id data TEAMS MESSAGES = Inr ((body, 201), MESSAGES1)"
    from send_team_message_twice [OF this, of utcnow2]
    show "\<exists>m1 m2. body = message_json m1 \<and> MESSAGES1 = MESSAGES @ [m1]
         \<and> send_team_message utcnow2 team_id data TEAMS MESSAGES1 =
             Inr ((message_json m2, 201), MESSAGES @ [m1, m2])
         \<and> msg_id m1 < msg_id m2 \<and> m1 \<noteq> m2"
      by force
  qed
  have p4: "send_email utcnow data EMAILS = Inr ((body, 201), EMAILS1) \<longrightarrow>
      (\<exists>fields1 fields2. EMAILS1 = EMAILS
         \<and> body = JObj [(''message'', JStr ''Email sent successfully''),
              (''email'', JObj ((''id'', JInt (Max (set (map eml_id EMAILS)) + 1)) # fields1))]
         \<and> send_email utcnow2 data EMAILS1 =
             Inr ((JObj [(''message'', JStr ''Email sent successfully''),
               (''email'', JObj ((''id'', JInt (Max (set (map eml_id EMAILS)) + 1)) # fields2))],
               201), EMAILS))"
  proof
    assume "send_email utcnow data EMAILS = Inr ((body, 201), EMAILS1)"
    from send_email_twice [OF this, of utcnow2]
    show "\<exists>fields1 fields2. EMAILS1 = EMAILS
         \<and> body = JObj [(''message'', JStr ''Email sent successfully''),
              (''email'', JObj ((''id'', JInt (Max (set (map eml_id EMAILS)) + 1)) # fields1))]
         \<and> send_email utcnow2 data EMAILS1 =
             Inr ((JObj [(''message'', JStr ''Email sent successfully''),
               (''email'', JObj ((''id'', JInt (Max (set (map eml_id EMAILS)) + 1)) # fields2))],
               201), EMAILS)"
      .
  qed
  show ?thesis
    by (intro conjI)
      (rule g1 g2 g3 g4 g5 g6 g7 g8 g9 g10 g11 g12 p1 p2 p3 p4)+
qed

theorem repeated_requests_witness:
  "(\<exists>r S. get_users sample_USERS = Inr (r, S) \<and> S = sample_USERS
      \<and> get_users S = Inr (r, S))
   \<and> (\<exists>r S. get_events sample_EVENTS = Inr (r, S) \<and> S = sample_EVENTS
      \<and> get_events S = Inr (r, S))
   \<and> (\<exists>r S. get_today_events \<lparr>year = 2024, month = 8, day = 22\<rparr> sample_EVENTS = Inr (r, S) \<and> S = sample_EVENTS
      \<and> get_today_events \<lparr>year = 2024, month = 8, day = 22\<rparr> S = Inr (r, S))
   \<and> (\<exists>r S. get_emails sample_EMAILS = Inr (r, S) \<and> S = sample_EMAILS
      \<and> get_emails S = Inr (r, S))
   \<and> (\<exists>r S. get_unread_emails sample_EMAILS = Inr (r, S) \<and> S = sample_EMAILS
      \<and> get_unread_emails S = Inr (r, S))
   \<and> (\<exists>r S. get_important_emails sample_EMAILS = Inr (r, S) \<and> S = sample_EMAILS
      \<and> get_important_emails S = Inr (r, S))
   \<and> (\<exists>r S. get_teams sample_TEAMS = Inr (r, S) \<and> S = sample_TEAMS
      \<and> get_teams S = Inr (r, S))
   \<and> (\<exists>r S. get_team_messages 1 sample_MESSAGES = Inr (r, S) \<and> S = sample_MESSAGES
      \<and> get_team_messages 1 S = Inr (r, S))
   \<and> (\<exists>r S. get_meetings sample_MEETINGS = Inr (r, S) \<and> S = sample_MEETINGS
      \<and> get_meetings S = Inr (r, S))
   \<and> (\<exists>r S. get_files sample_FILES = Inr (r, S) \<and> S = sample_FILES
      \<and> get_files S = Inr (r, S))
   \<and> (\<exists>r S. get_shared_files sample_FILES = Inr (r, S) \<and> S = sample_FILES
      \<and> get_shared_files S = Inr (r, S))
   \<and> (\<exists>r S. get_folders sample_FOLDERS = Inr (r, S) \<and> S = sample_FOLDERS
      \<and> get_folders S = Inr (r, S))
   \<and> (\<exists>body S1 x1 x2. create_user (JObj [(''name'', JStr ''Ann'')]) sample_USERS = Inr ((body, 201), S1)
      \<and> body = user_json x1 \<and> S1 = sample_USERS @ [x1]
      \<and> create_user (JObj [(''name'', JStr ''Ann'')]) S1 = Inr ((user_json x2, 201), sample_USERS @ [x1, x2])
      \<and> usr_id x1 < usr_id x2 \<and> x1 \<noteq> x2)
   \<and> (\<exists>body S1 x1 x2. create_event (JObj [(''title'', JStr ''Retro''), (''start'', JStr ''2024-09-02T10:00:00Z'')])
        sample_EVENTS = Inr ((body, 201), S1)
      \<and> body = event_json x1 \<and> S1 = sample_EVENTS @ [x1]
      \<and> create_event (JObj [(''title'', JStr ''Retro''), (''start'', JStr ''2024-09-02T10:00:00Z'')]) S1 = Inr ((event_json x2, 201), sample_EVENTS @ [x1, x2])
      \<and> evt_id x1 < evt_id x2 \<and> x1 \<noteq> x2)
   \<and> (\<exists>body S1 x1 x2. send_team_message ''2024-09-02T10:00:00'' 2 (JObj [(''message'', JStr ''hello'')])
        sample_TEAMS sample_MESSAGES = Inr ((body, 201), S1)
      \<and> body = message_json x1 \<and> S1 = sample_MESSAGES @ [x1]
      \<and> send_team_message ''2024-09-02T10:00:05'' 2 (JObj [(''message'', JStr ''hello'')])
        sample_TEAMS S1 = Inr ((message_json x2, 201), sample_MESSAGES @ [x1, x2])
      \<and> msg_id x1 < msg_id x2 \<and> x1 \<noteq> x2)
   \<and> (\<exists>body S1 fields1 fields2. send_email ''2024-09-02T10:00:00''
        (JObj [(''to'', JStr ''ann@company.com''), (''subject'', JStr ''Hi'')]) sample_EMAILS = Inr ((body, 201), S1)
      \<and> S1 = sample_EMAILS
      \<and> body = JObj [(''message'', JStr ''Email sent successfully''),
           (''email'', JObj ((''id'', JInt (Max (set (map eml_id sample_EMAILS)) + 1)) # fields1))]
      \<and> send_email ''2024-09-02T10:00:05''
        (JObj [(''to'', JStr ''ann@company.com''), (''subject'', JStr ''Hi'')]) S1 =
          Inr ((JObj [(''message'', JStr ''Email sent successfully''),
            (''email'', JObj ((''id'', JInt (Max (set (map eml_id sample_EMAILS)) + 1)) # fields2))],
            201), sample_EMAILS))"
proof -
  obtain r1 s1 where h1: "get_users sample_USERS = Inr (r1, s1)"
    by (simp add: get_users_def)
  note g1 = repeated_requests [THEN conjunct1,
      rule_format, OF h1]
  obtain r2 s2 where h2: "get_events sample_EVENTS = Inr (r2, s2)"
    by (simp add: get_events_def)
  note g2 = repeated_requests [THEN conjunct2, THEN conjunct1,
      rule_format, OF h2]
  obtain r3 s3 where h3: "get_today_events \<lparr>year = 2024, month = 8, day = 22\<rparr> sample_EVENTS = Inr (r3, s3)"
    using today_loop_all_parse [OF sample_EVENTS_parse]
    by (simp add: get_today_events_def)
  note g3 = repeated_requests [THEN conjunct2, THEN conjunct2, THEN conjunct1,
      rule_format, OF h3]
  obtain r4 s4 where h4: "get_emails sample_EMAILS = Inr (r4, s4)"
    by (simp add: get_emails_def)
  note g4 = repeated_requests [THEN conjunct2, THEN conjunct2, THEN conjunct2, THEN conjunct1,
      rule_format, OF h4]
  obtain r5 s5 where h5: "get_unread_emails sample_EMAILS = Inr (r5, s5)"
    by (simp add: get_unread_emails_def)
  note g5 = repeated_requests [THEN conjunct2, THEN conjunct2, THEN conjunct2, THEN conjunct2, THEN conjunct1,
      rule_format, OF h5]
  obtain r6 s6 where h6: "get_important_emails sample_EMAILS = Inr (r6, s6)"
    by (simp add: get_important_emails_def)
  note g6 = repeated_requests [THEN conjunct2, THEN conjunct2, THEN conjunct2, THEN conjunct2, THEN conjunct2,
      THEN conjunct1,
      rule_format, OF h6]
  obtain r7 s7 where h7: "get_teams sample_TEAMS = Inr (r7, s7)"
    by (simp add: get_teams_def)
  note g7 = repeated_requests [THEN conjunct2, THEN conjunct2, THEN conjunct2, THEN conjunct2, THEN conjunct2,
      THEN conjunct2, THEN conjunct1,
      rule_format, OF h7]
  obtain r8 s8 where h8: "get_team_messages 1 sample_MESSAGES = Inr (r8, s8)"
    by (simp add: get_team_messages_def Let_def)
  note g8 = repeated_requests [THEN conjunct2, THEN conjunct2, THEN conjunct2, THEN conjunct2, THEN conjunct2,
      THEN conjunct2, THEN conjunct2, THEN conjunct1,
      rule_format, OF h8]
  obtain r9 s9 where h9: "get_meetings sample_MEETINGS = Inr (r9, s9)"
    by (simp add: get_meetings_def)
  note g9 = repeated_requests [THEN conjunct2, THEN conjunct2, THEN conjunct2, THEN conjunct2, THEN conjunct2,
      THEN conjunct2, THEN conjunct2, THEN conjunct2, THEN conjunct1,
      rule_format, OF h9]
  obtain r10 s10 where h10: "get_files sample_FILES = Inr (r10, s10)"
    by (simp add: get_files_def)
  note g10 = repeated_requests [THEN conjunct2, THEN conjunct2, THEN conjunct2, THEN conjunct2, THEN conjunct2,
      THEN conjunct2, THEN conjunct2, THEN conjunct2, THEN conjunct2, THEN conjunct1,
      rule_format, OF h10]
  obtain r11 s11 where h11: "get_shared_files sample_FILES = Inr (r11, s11)"
    by (simp add: get_shared_files_def)
  note g11 = repeated_requests [THEN conjunct2, THEN conjunct2, THEN conjunct2, THEN conjunct2, THEN conjunct2,
      THEN conjunct2, THEN conjunct2, THEN conjunct2, THEN conjunct2, THEN conjunct2,
      THEN conjunct1,
      rule_format, OF h11]
  obtain r12 s12 where h12: "get_folders sample_FOLDERS = Inr (r12, s12)"
    by (simp add: get_folders_def)
  note g12 = repeated_requests [THEN conjunct2, THEN conjunct2, THEN conjunct2, THEN conjunct2, THEN conjunct2,
      THEN conjunct2, THEN conjunct2, THEN conjunct2, THEN conjunct2, THEN conjunct2,
      THEN conjunct2, THEN conjunct1,
      rule_format, OF h12]
  obtain ub us where uh: "create_user (JObj [(''name'', JStr ''Ann'')]) sample_USERS = Inr ((ub, 201), us)"
    by (simp add: create_user_def sample_USERS_def Let_def)
  note up = repeated_requests [THEN conjunct2, THEN conjunct2, THEN conjunct2, THEN conjunct2, THEN conjunct2,
      THEN conjunct2, THEN conjunct2, THEN conjunct2, THEN conjunct2, THEN conjunct2,
      THEN conjunct2, THEN conjunct2, THEN conjunct1,
      rule_format, OF uh]
  obtain eb es where eh: "create_event (JObj [(''title'', JStr ''Retro''), (''start'', JStr ''2024-09-02T10:00:00Z'')]) sample_EVENTS = Inr ((eb, 201), es)"
    by (simp add: create_event_def sample_EVENTS_def Let_def)
  note ep = repeated_requests [THEN conjunct2, THEN conjunct2, THEN conjunct2, THEN conjunct2, THEN conjunct2,
      THEN conjunct2, THEN conjunct2, THEN conjunct2, THEN conjunct2, THEN conjunct2,
      THEN conjunct2, THEN conjunct2, THEN conjunct2, THEN conjunct1,
      rule_format, OF eh]
  obtain mb ms where mh: "send_team_message ''2024-09-02T10:00:00'' 2 (JObj [(''message'', JStr ''hello'')]) sample_TEAMS sample_MESSAGES = Inr ((mb, 201), ms)"
    by (simp add: send_team_message_def sample_MESSAGES_def sample_TEAMS_def Let_def)
  note mp = repeated_requests [THEN conjunct2, THEN conjunct2, THEN conjunct2, THEN conjunct2, THEN conjunct2,
      THEN conjunct2, THEN conjunct2, THEN conjunct2, THEN conjunct2, THEN conjunct2,
      THEN conjunct2, THEN conjunct2, THEN conjunct2, THEN conjunct2, THEN conjunct1,
      rule_format, OF mh, of "''2024-09-02T10:00:05''"]
  obtain sb ss where sh: "send_email ''2024-09-02T10:00:00'' (JObj [(''to'', JStr ''ann@company.com''), (''subject'', JStr ''Hi'')]) sample_EMAILS = Inr ((sb, 201), ss)"
    by (simp add: send_email_def sample_EMAILS_def Let_def)
  note sp = repeated_requests [THEN conjunct2, THEN conjunct2, THEN conjunct2, THEN conjunct2, THEN conjunct2,
      THEN conjunct2, THEN conjunct2, THEN conjunct2, THEN conjunct2, THEN conjunct2,
      THEN conjunct2, THEN conjunct2, THEN conjunct2, THEN conjunct2, THEN conjunct2,
      rule_format, OF sh, of "''2024-09-02T10:00:05''"]
  from h1 g1 h2 g2 h3 g3 h4 g4 h5 g5 h6 g6
    h7 g7 h8 g8 h9 g9 h10 g10 h11 g11 h12 g12 uh up eh ep mh mp sh sp
  show ?thesis
    by blast
qed

text \<open>
  The claim C4 as stated fails for POST /emails/send: the same valid request sent twice on
  the sample data is answered 201 both times with the id 4 both times, and the second call
  works on the collection the first one returned, the sample data.
\<close>

theorem send_email_twice_same_id:
  "send_email ''2024-09-02T10:00:00''
      (JObj [(''to'', JStr ''ann@company.com''), (''subject'', JStr ''Hi'')]) sample_EMAILS =
     Inr ((JObj [(''message'', JStr ''Email sent successfully''),
                 (''email'', JObj [(''id'', JInt 4), (''from'', JStr ''user@company.com''),
                    (''to'', JStr ''ann@company.com''), (''subject'', JStr ''Hi''),
                    (''body'', JStr ''''), (''sent'', JStr ''2024-09-02T10:00:00Z''),
                    (''status'', JStr ''sent'')])], 201),
          sample_EMAILS)
   \<and> send_email ''2024-09-02T10:00:05''
      (JObj [(''to'', JStr ''ann@company.com''), (''subject'', JStr ''Hi'')]) sample_EMAILS =
     Inr ((JObj [(''message'', JStr ''Email sent successfully''),
                 (''email'', JObj [(''id'', JInt 4), (''from'', JStr ''user@company.com''),
                    (''to'', JStr ''ann@company.com''), (''subject'', JStr ''Hi''),
                    (''body'', JStr ''''), (''sent'', JStr ''2024-09-02T10:00:05Z''),
                    (''status'', JStr ''sent'')])], 201),
          sample_EMAILS)"
  by (simp add: send_email_def sample_EMAILS_def Let_def)

section \<open>Posting a message to an unknown team\<close>

text \<open>
  C5: for a team id that no record of the Teams collection has, POST /teams/{id}/messages
  with an object body that has a \<^verbatim>\<open>message\<close> key returns 404 with
  \<^verbatim>\<open>{error: "Team not found"}\<close>, and the Messages collection is unchanged.
\<close>

theorem send_team_message_unknown_team:
  "team_id \<notin> tm_id ` set TEAMS \<Longrightarrow> map_of kv ''message'' = Some content \<Longrightarrow>
     send_team_message utcnow team_id (JObj kv) TEAMS MESSAGES =
       Inr ((error_body ''Team not found'', 404), MESSAGES)"
  by (auto simp: send_team_message_def find_absent)

theorem send_team_message_unknown_team_witness:
  "999 \<notin> tm_id ` set sample_TEAMS
   \<and> send_team_message ''2024-08-24T10:00:00'' 999 (JObj [(''message'', JStr ''hello'')])
       sample_TEAMS sample_MESSAGES =
     Inr ((JObj [(''error'', JStr ''Team not found'')], 404), sample_MESSAGES)"
proof -
  have absent: "999 \<notin> tm_id ` set sample_TEAMS"
    by (simp add: sample_TEAMS_def)
  have key: "map_of [(''message'', JStr ''hello'')] ''message'' = Some (JStr ''hello'')"
    by simp
  show ?thesis
    using absent send_team_message_unknown_team [OF absent key]
    by (simp add: error_body_def)
qed

section \<open>Creating a user without a name\<close>

text \<open>
  C6: POST /users with an object body that has no \<^verbatim>\<open>name\<close> key (the empty object
  included) returns 400 with the body \<^verbatim>\<open>{error: "Name is required"}\<close>, and the Users
  collection is unchanged.
\<close>

theorem create_user_missing_name:
  "map_of kv ''name'' = None \<Longrightarrow>
     create_user (JObj kv) USERS = Inr ((error_body ''Name is required'', 400), USERS)"
  by (simp add: create_user_def)

theorem create_user_missing_name_witness:
  "create_user (JObj []) sample_USERS =
     Inr ((JObj [(''error'', JStr ''Name is required'')], 400), sample_USERS)
   \<and> create_user (JObj [(''email'', JStr ''t@company.com'')]) sample_USERS =
     Inr ((JObj [(''error'', JStr ''Name is required'')], 400), sample_USERS)"
  using create_user_missing_name [of "[]" sample_USERS]
    create_user_missing_name [of "[(''email'', JStr ''t@company.com'')]" sample_USERS]
  by (simp add: error_body_def)

section \<open>Creating a user with a name only\<close>

text \<open>
  C7: on a Users collection with at least one record, POST /users with the body
  \<^verbatim>\<open>{"name": "Test"}\<close> returns 201 and a record whose id is the previous maximum id plus
  one, whose email is the empty string and whose role is \<^verbatim>\<open>user\<close>; that record is
  appended.
\<close>

theorem create_user_defaults:
  "USERS \<noteq> [] \<Longrightarrow>
     create_user (JObj [(''name'', JStr ''Test'')]) USERS =
       Inr ((JObj [(''id'', JInt (Max (set (map usr_id USERS)) + 1)), (''name'', JStr ''Test''),
                   (''email'', JStr ''''), (''role'', JStr ''user'')], 201),
            USERS @ [\<lparr>usr_id = Max (set (map usr_id USERS)) + 1, usr_name = JStr ''Test'',
                       usr_email = JStr '''', usr_role = JStr ''user''\<rparr>])"
  by (simp add: create_user_def py_max_Max user_json_def)

theorem create_user_defaults_witness:
  "sample_USERS \<noteq> [] \<and>
   create_user (JObj [(''name'', JStr ''Test'')]) sample_USERS =
     Inr ((JObj [(''id'', JInt 5), (''name'', JStr ''Test''),
                 (''email'', JStr ''''), (''role'', JStr ''user'')], 201),
          sample_USERS @ [\<lparr>usr_id = 5, usr_name = JStr ''Test'',
                             usr_email = JStr '''', usr_role = JStr ''user''\<rparr>])"
proof -
  have ne: "sample_USERS \<noteq> []"
    by (simp add: sample_USERS_def)
  have mx: "Max (usr_id ` set sample_USERS) = 4"
    by (simp add: sample_USERS_def)
  show ?thesis
    using ne create_user_defaults [OF ne] by (simp add: mx)
qed

section \<open>Get by id\<close>

text \<open>
  C8: every get-by-id endpoint answers 404 with its collection's own message when no
  record has the id, and answers 200 with the first record that has the id otherwise:
  the record \<open>x\<close> of a collection \<open>pre @ x # post\<close> in which no record of \<open>pre\<close> has the id.
  The collection is unchanged either way.
\<close>

theorem get_by_id:
  "(user_id \<notin> usr_id ` set USERS \<longrightarrow>
      get_user user_id USERS = Inr ((JObj [(''error'', JStr ''User not found'')], 404), USERS))
   \<and> (usr_id u = user_id \<and> user_id \<notin> usr_id ` set upre \<longrightarrow>
      get_user user_id (upre @ u # upost) = Inr ((user_json u, 200), upre @ u # upost))
   \<and> (event_id \<notin> evt_id ` set EVENTS \<longrightarrow>
      get_event event_id EVENTS = Inr ((JObj [(''error'', JStr ''Event not found'')], 404), EVENTS))
   \<and> (evt_id e = event_id \<and> event_id \<notin> evt_id ` set epre \<longrightarrow>
      get_event event_id (epre @ e # epost) = Inr ((event_json e, 200), epre @ e # epost))
   \<and> (email_id \<notin> eml_id ` set EMAILS \<longrightarrow>
      get_email email_id EMAILS = Inr ((JObj [(''error'', JStr ''Email not found'')], 404), EMAILS))
   \<and> (eml_id m = email_id \<and> email_id \<notin> eml_id ` set mpre \<longrightarrow>
      get_email email_id (mpre @ m # mpost) = Inr ((email_json m, 200), mpre @ m # mpost))
   \<and> (team_id \<notin> tm_id ` set TEAMS \<longrightarrow>
      get_team team_id TEAMS = Inr ((JObj [(''error'', JStr ''Team not found'')], 404), TEAMS))
   \<and> (tm_id t = team_id \<and> team_id \<notin> tm_id ` set tpre \<longrightarrow>
      get_team team_id (tpre @ t # tpost) = Inr ((team_json t, 200), tpre @ t # tpost))
   \<and> (file_id \<notin> fil_id ` set FILES \<longrightarrow>
      get_file file_id FILES = Inr ((JObj [(''error'', JStr ''File not found'')], 404), FILES))
   \<and> (fil_id f = file_id \<and> file_id \<notin> fil_id ` set fpre \<longrightarrow>
      get_file file_id (fpre @ f # fpost) = Inr ((file_json f, 200), fpre @ f # fpost))"
proof -
  have user_404: "get_user user_id USERS =
      Inr ((JObj [(''error'', JStr ''User not found'')], 404), USERS)"
    if "user_id \<notin> usr_id ` set USERS"
    using that by (simp add: get_user_def find_absent error_body_def)
  have user_200: "get_user user_id (upre @ u # upost) = Inr ((user_json u, 200), upre @ u # upost)"
    if "usr_id u = user_id" "user_id \<notin> usr_id ` set upre"
    using that by (simp add: get_user_def find_first_match)
  have event_404: "get_event event_id EVENTS =
      Inr ((JObj [(''error'', JStr ''Event not found'')], 404), EVENTS)"
    if "event_id \<notin> evt_id ` set EVENTS"
    using that by (simp add: get_event_def find_absent error_body_def)
  have event_200: "get_event event_id (epre @ e # epost) =
      Inr ((event_json e, 200), epre @ e # epost)"
    if "evt_id e = event_id" "event_id \<notin> evt_id ` set epre"
    using that by (simp add: get_event_def find_first_match)
  have email_404: "get_email email_id EMAILS =
      Inr ((JObj [(''error'', JStr ''Email not found'')], 404), EMAILS)"
    if "email_id \<notin> eml_id ` set EMAILS"
    using that by (simp add: get_email_def find_absent error_body_def)
  have email_200: "get_email email_id (mpre @ m # mpost) =
      Inr ((email_json m, 200), mpre @ m # mpost)"
    if "eml_id m = email_id" "email_id \<notin> eml_id ` set mpre"
    using that by (simp add: get_email_def find_first_match)
  have team_404: "get_team team_id TEAMS =
      Inr ((JObj [(''error'', JStr ''Team not found'')], 404), TEAMS)"
    if "team_id \<notin> tm_id ` set TEAMS"
    using that by (simp add: get_team_def find_absent error_body_def)
  have team_200: "get_team team_id (tpre @ t # tpost) = Inr ((team_json t, 200), tpre @ t # tpost)"
    if "tm_id t = team_id" "team_id \<notin> tm_id ` set tpre"
    using that by (simp add: get_team_def find_first_match)
  have file_404: "get_file file_id FILES =
      Inr ((JObj [(''error'', JStr ''File not found'')], 404), FILES)"
    if "file_id \<notin> fil_id ` set FILES"
    using that by (simp add: get_file_def find_absent error_body_def)
  have file_200: "get_file file_id (fpre @ f # fpost) = Inr ((file_json f, 200), fpre @ f # fpost)"
    if "fil_id f = file_id" "file_id \<notin> fil_id ` set fpre"
    using that by (simp add: get_file_def find_first_match)
  show ?thesis
    using user_404 user_200 event_404 event_200 email_404 email_200 team_404 team_200
      file_404 file_200
    by blast
qed

theorem get_by_id_witness:
  "get_user 99 sample_USERS =
     Inr ((JObj [(''error'', JStr ''User not found'')], 404), sample_USERS)
   \<and> get_user 2 sample_USERS = Inr ((user_json (sample_USERS ! 1), 200), sample_USERS)
   \<and> get_event 99 sample_EVENTS =
     Inr ((JObj [(''error'', JStr ''Event not found'')], 404), sample_EVENTS)
   \<and> get_event 3 sample_EVENTS = Inr ((event_json (sample_EVENTS ! 2), 200), sample_EVENTS)
   \<and> get_email 99 sample_EMAILS =
     Inr ((JObj [(''error'', JStr ''Email not found'')], 404), sample_EMAILS)
   \<and> get_email 1 sample_EMAILS = Inr ((email_json (sample_EMAILS ! 0), 200), sample_EMAILS)
   \<and> get_team 99 sample_TEAMS =
     Inr ((JObj [(''error'', JStr ''Team not found'')], 404), sample_TEAMS)
   \<and> get_team 2 sample_TEAMS = Inr ((team_json (sample_TEAMS ! 1), 200), sample_TEAMS)
   \<and> get_file 99 sample_FILES =
     Inr ((JObj [(''error'', JStr ''File not found'')], 404), sample_FILES)
   \<and> get_file 2 sample_FILES = Inr ((file_json (sample_FILES ! 1), 200), sample_FILES)"
proof -
  note absent = get_by_id [where user_id = 99 and event_id = 99 and email_id = 99
      and team_id = 99 and file_id = 99]
  note present = get_by_id [where user_id = 2 and event_id = 3 and email_id = 1
      and team_id = 2 and file_id = 2
      and upre = "take 1 sample_USERS" and u = "sample_USERS ! 1"
      and upost = "drop 2 sample_USERS"
      and epre = "take 2 sample_EVENTS" and e = "sample_EVENTS ! 2"
      and epost = "drop 3 sample_EVENTS"
      and mpre = "take 0 sample_EMAILS" and m = "sample_EMAILS ! 0"
      and mpost = "drop 1 sample_EMAILS"
      and tpre = "take 1 sample_TEAMS" and t = "sample_TEAMS ! 1"
      and tpost = "drop 2 sample_TEAMS"
      and fpre = "take 1 sample_FILES" and f = "sample_FILES ! 1"
      and fpost = "drop 2 sample_FILES"]
  have user_absent: "99 \<notin> usr_id ` set sample_USERS"
    by (simp add: sample_USERS_def)
  have user_first: "usr_id (sample_USERS ! 1) = 2 \<and> 2 \<notin> usr_id ` set (take 1 sample_USERS)"
    by (simp add: sample_USERS_def)
  have user_split: "take 1 sample_USERS @ sample_USERS ! 1 # drop 2 sample_USERS = sample_USERS"
    by (simp add: sample_USERS_def)
  note user_404 = absent [THEN conjunct1, rule_format, OF user_absent]
  note user_200 = present [THEN conjunct2, THEN conjunct1, rule_format, OF user_first, unfolded user_split]
  have event_absent: "99 \<notin> evt_id ` set sample_EVENTS"
    by (simp add: sample_EVENTS_def)
  have event_first: "evt_id (sample_EVENTS ! 2) = 3 \<and> 3 \<notin> evt_id ` set (take 2 sample_EVENTS)"
    by (simp add: sample_EVENTS_def)
  have event_split: "take 2 sample_EVENTS @ sample_EVENTS ! 2 # drop 3 sample_EVENTS = sample_EVENTS"
    by (simp add: sample_EVENTS_def)
  note event_404 = absent [THEN conjunct2, THEN conjunct2, THEN conjunct1, rule_format, OF event_absent]
  note event_200 = present [THEN conjunct2, THEN conjunct2, THEN conjunct2, THEN conjunct1, rule_format, OF event_first, unfolded event_split]
  have email_absent: "99 \<notin> eml_id ` set sample_EMAILS"
    by (simp add: sample_EMAILS_def)
  have email_first: "eml_id (sample_EMAILS ! 0) = 1 \<and> 1 \<notin> eml_id ` set (take 0 sample_EMAILS)"
    by (simp add: sample_EMAILS_def)
  have email_split: "take 0 sample_EMAILS @ sample_EMAILS ! 0 # drop 1 sample_EMAILS = sample_EMAILS"
    by (simp add: sample_EMAILS_def)
  note email_404 = absent [THEN conjunct2, THEN conjunct2, THEN conjunct2, THEN conjunct2, THEN conjunct1, rule_format, OF email_absent]
  note email_200 = present [THEN conjunct2, THEN conjunct2, THEN conjunct2, THEN conjunct2, THEN conjunct2, THEN conjunct1, rule_format, OF email_first, unfolded email_split]
  have team_absent: "99 \<notin> tm_id ` set sample_TEAMS"
    by (simp add: sample_TEAMS_def)
  have team_first: "tm_id (sample_TEAMS ! 1) = 2 \<and> 2 \<notin> tm_id ` set (take 1 sample_TEAMS)"
    by (simp add: sample_TEAMS_def)
  have team_split: "take 1 sample_TEAMS @ sample_TEAMS ! 1 # drop 2 sample_TEAMS = sample_TEAMS"
    by (simp add: sample_TEAMS_def)
  note team_404 = absent [THEN conjunct2, THEN conjunct2, THEN conjunct2, THEN conjunct2, THEN conjunct2, THEN conjunct2, THEN conjunct1, rule_format, OF team_absent]
  note team_200 = present [THEN conjunct2, THEN conjunct2, THEN conjunct2, THEN conjunct2, THEN conjunct2, THEN conjunct2, THEN conjunct2, THEN conjunct1, rule_format, OF team_first, unfolded team_split]
  have file_absent: "99 \<notin> fil_id ` set sample_FILES"
    by (simp add: sample_FILES_def)
  have file_first: "fil_id (sample_FILES ! 1) = 2 \<and> 2 \<notin> fil_id ` set (take 1 sample_FILES)"
    by (simp add: sample_FILES_def)
  have file_split: "take 1 sample_FILES @ sample_FILES ! 1 # drop 2 sample_FILES = sample_FILES"
    by (simp add: sample_FILES_def)
  note file_404 = absent [THEN conjunct2, THEN conjunct2, THEN conjunct2, THEN conjunct2, THEN conjunct2, THEN conjunct2, THEN conjunct2, THEN conjunct2, THEN conjunct1, rule_format, OF file_absent]
  note file_200 = present [THEN conjunct2, THEN conjunct2, THEN conjunct2, THEN conjunct2, THEN conjunct2, THEN conjunct2, THEN conjunct2, THEN conjunct2, THEN conjunct2, rule_format, OF file_first, unfolded file_split]
  show ?thesis
    by (intro conjI) (rule user_404 user_200 event_404 event_200 email_404 email_200 team_404 team_200 file_404 file_200)+
qed

section \<open>A start that is not a timestamp\<close>

text \<open>
  C9: POST /events checks only that \<^verbatim>\<open>title\<close> and \<^verbatim>\<open>start\<close> are present: on a
  non-empty Events collection an object body with both keys is answered 201 and the
  \<^verbatim>\<open>start\<close> value is stored as it is, whatever it is. When that value does not parse,
  every later GET /events/today raises instead of returning a response, and the error is
  the parse error of that value when the events stored before all parse.
\<close>

theorem create_event_stores_any_start:
  "EVENTS \<noteq> [] \<Longrightarrow> map_of kv ''title'' = Some title \<Longrightarrow> map_of kv ''start'' = Some start \<Longrightarrow>
     \<exists>new_event.
       create_event (JObj kv) EVENTS = Inr ((event_json new_event, 201), EVENTS @ [new_event])
       \<and> evt_start new_event = start
       \<and> (date_of_start start = Inl err \<longrightarrow>
            (\<exists>err'. get_today_events today (EVENTS @ [new_event]) = Inl err'))
       \<and> (date_of_start start = Inl err
            \<and> (\<forall>e \<in> set EVENTS. \<exists>d. date_of_start (evt_start e) = Inr d) \<longrightarrow>
            get_today_events today (EVENTS @ [new_event]) = Inl err)"
proof -
  assume ne: "EVENTS \<noteq> []" and t: "map_of kv ''title'' = Some title"
    and s: "map_of kv ''start'' = Some start"
  let ?new = "\<lparr>evt_id = Max (set (map evt_id EVENTS)) + 1, evt_title = title,
      evt_start = start,
      evt_end = (case map_of kv ''end'' of None \<Rightarrow> start | Some v \<Rightarrow> v),
      evt_attendees = (case map_of kv ''attendees'' of None \<Rightarrow> JList [] | Some v \<Rightarrow> v)\<rparr>"
  from t have kv: "kv \<noteq> []"
    by auto
  have created: "create_event (JObj kv) EVENTS = Inr ((event_json ?new, 201), EVENTS @ [?new])"
    using kv t s ne by (intro create_event_accepts) simp_all
  have raises: "\<exists>err'. get_today_events today (EVENTS @ [?new]) = Inl err'"
    if "date_of_start start = Inl err"
  proof -
    have "?new \<in> set (EVENTS @ [?new])"
      by simp
    from today_loop_raises [OF this, of err today "[]"] that
    obtain err' where "today_loop today (EVENTS @ [?new]) [] = Inl err'"
      by auto
    then show ?thesis
      by (simp add: get_today_events_def)
  qed
  have parse_error: "get_today_events today (EVENTS @ [?new]) = Inl err"
    if "date_of_start start = Inl err"
      "\<forall>e \<in> set EVENTS. \<exists>d. date_of_start (evt_start e) = Inr d"
  proof -
    have "today_loop today (EVENTS @ ?new # []) [] = Inl err"
      using that by (intro today_loop_first_error) simp_all
    then show ?thesis
      by (simp add: get_today_events_def)
  qed
  from created raises parse_error show ?thesis
    by (intro exI [of _ ?new]) simp
qed

theorem create_event_stores_any_start_witness:
  "\<exists>new_event.
     create_event (JObj [(''title'', JStr ''Lunch''), (''start'', JStr ''next Monday'')])
       sample_EVENTS = Inr ((event_json new_event, 201), sample_EVENTS @ [new_event])
     \<and> evt_start new_event = JStr ''next Monday''
     \<and> get_today_events \<lparr>year = 2024, month = 8, day = 22\<rparr> (sample_EVENTS @ [new_event]) =
         Inl ValueError"
proof -
  have ne: "sample_EVENTS \<noteq> []"
    by (simp add: sample_EVENTS_def)
  have t: "map_of [(''title'', JStr ''Lunch''), (''start'', JStr ''next Monday'')] ''title'' =
      Some (JStr ''Lunch'')"
    by simp
  have s: "map_of [(''title'', JStr ''Lunch''), (''start'', JStr ''next Monday'')] ''start'' =
      Some (JStr ''next Monday'')"
    by simp
  have bad: "date_of_start (JStr ''next Monday'') = Inl ValueError"
    by (simp add: parser_defs)
  from create_event_stores_any_start [OF ne t s,
      of ValueError "\<lparr>year = 2024, month = 8, day = 22\<rparr>"]
    bad sample_EVENTS_parse
  show ?thesis
    by blast
qed

section \<open>The body is checked before the team\<close>

text \<open>
  C10: in POST /teams/{id}/messages the check for the \<^verbatim>\<open>message\<close> field comes before the
  check that the team exists: for an object body without a \<^verbatim>\<open>message\<close> key the response
  is 400 with \<^verbatim>\<open>{error: "Message content is required"}\<close> whatever the team id and the
  Teams collection are, also when the team does not exist.
\<close>

theorem send_team_message_checks_body_first:
  "map_of kv ''message'' = None \<Longrightarrow>
     send_team_message utcnow team_id (JObj kv) TEAMS MESSAGES =
       Inr ((error_body ''Message content is required'', 400), MESSAGES)"
  by (simp add: send_team_message_def)

theorem send_team_message_checks_body_first_witness:
  "find (\<lambda>t. tm_id t = 999) sample_TEAMS = None
   \<and> send_team_message ''2024-08-24T10:00:00'' 999 (JObj [(''from'', JStr ''a@company.com'')])
       sample_TEAMS sample_MESSAGES =
     Inr ((JObj [(''error'', JStr ''Message content is required'')], 400), sample_MESSAGES)
   \<and> send_team_message ''2024-08-24T10:00:00'' 1 (JObj [])
       sample_TEAMS sample_MESSAGES =
     Inr ((JObj [(''error'', JStr ''Message content is required'')], 400), sample_MESSAGES)"
  using send_team_message_checks_body_first
      [of "[(''from'', JStr ''a@company.com'')]" "''2024-08-24T10:00:00''" 999
        sample_TEAMS sample_MESSAGES]
    send_team_message_checks_body_first
      [of "[]" "''2024-08-24T10:00:00''" 1 sample_TEAMS sample_MESSAGES]
  by (simp add: error_body_def sample_TEAMS_def)

end
